theory Spec2Isabelle
  imports Complex_Main "HOL-Library.Sublist" "HOL-Library.Word"
begin

section \<open>JavaScript values\<close>

text \<open>
  The program is TypeScript whose handlers take \<^verbatim>\<open>args: any\<close> and whose upstream
  payloads are \<^verbatim>\<open>any\<close>, so the model works on untyped JavaScript values: the values
  that JSON can carry, and \<^verbatim>\<open>undefined\<close>.

  A \<^typ>\<open>string\<close> stands for a JavaScript string whose UTF-16 code units are all below
  256; a \<^typ>\<open>char\<close> is the code unit of the same number. The topic of the news query,
  which the platform converts before it sends it, is taken with all its code units
  (\<open>jsstring\<close> below).

  A JavaScript number is an IEEE double. The model keeps \<^verbatim>\<open>NaN\<close> and the two
  infinities apart and takes a finite number as the rational it denotes (the two zeros
  are one value; both are falsy and print as \<^verbatim>\<open>0\<close>).
\<close>

datatype jsnumber = NaN | PosInfinity | NegInfinity | Finite rat

datatype jsvalue =
    Undefined
  | Null
  | Bool bool
  | Num jsnumber
  | Str string
  | Arr "jsvalue list"
  | Obj "(string \<times> jsvalue) list"

text \<open>
  \<open>Obj ps\<close> is an object with the own properties \<open>ps\<close>; the first binding of a name
  is the property's value.
\<close>

text \<open>
  What the engine itself throws: a \<^verbatim>\<open>TypeError\<close>, for one of these faults. A
  destructuring fault names the property and the text or value that was destructured.
\<close>

datatype fault =
    ReadOfNull string                     \<comment> \<open>reading a member of null\<close>
  | ReadOfUndefined string                \<comment> \<open>reading a member of undefined\<close>
  | DestructureNull string string         \<comment> \<open>destructuring null\<close>
  | DestructureUndefined string string    \<comment> \<open>destructuring undefined\<close>
  | NotCallable string                    \<comment> \<open>calling a member that is not a function\<close>
  | NotPrimitive                          \<comment> \<open>an object that cannot be converted to a primitive value\<close>

text \<open>
  A thrown value. \<open>Error m\<close> is an instance of \<^verbatim>\<open>Error\<close> (or of a subclass) with the
  message \<open>m\<close>: what \<^verbatim>\<open>new Error(m)\<close> builds, and what \<^verbatim>\<open>fetch\<close> and
  \<^verbatim>\<open>response.json()\<close> reject with. \<open>NonError\<close> is any thrown value that is not an
  instance of \<^verbatim>\<open>Error\<close>.
\<close>

datatype thrown = Error string | TypeError fault | NonError

subsection \<open>Strings by their code units\<close>

text \<open>A JavaScript string is a sequence of 16-bit code units.\<close>

type_synonym code_unit = "16 word"

type_synonym jsstring = "code_unit list"

subsection \<open>HTTP\<close>

text \<open>
  A request keeps its parts apart: \<open>GetQuery u ps\<close> is
  \<^verbatim>\<open>fetch(`${u}?${new URLSearchParams(ps)}`)\<close>, \<open>PostJson u b\<close> posts
  \<^verbatim>\<open>JSON.stringify(b)\<close> and \<open>PostForm u ps\<close> posts the form fields \<open>ps\<close>. The values
  of a query are strings by their code units.
\<close>

datatype request =
    Get string
  | GetQuery string "(string \<times> jsstring) list"
  | PostJson string jsvalue
  | PostForm string "(string \<times> string) list"

record response =
  status :: nat
  statusText :: string
  json :: "thrown + jsvalue"   \<comment> \<open>\<^verbatim>\<open>await response.json()\<close>: the parsed body, or a rejection\<close>

definition ok :: "response \<Rightarrow> bool" where
  "ok r = (200 \<le> status r \<and> status r \<le> 299)"

subsection \<open>The runtime\<close>

text \<open>
  Everything the program reads from outside itself: the process environment, the
  network, and the built-ins of the engine whose results depend on floating point or on
  the engine's wording. Console output is not modelled.
\<close>

record runtime =
  env :: "string \<rightharpoonup> string"                 \<comment> \<open>\<^verbatim>\<open>process.env\<close>\<close>
  fetch :: "request \<Rightarrow> thrown + response"     \<comment> \<open>\<open>Inl\<close>: the promise rejects\<close>
  JSON_parse :: "string \<Rightarrow> string + jsvalue"   \<comment> \<open>\<open>Inl m\<close>: a SyntaxError with message \<open>m\<close>\<close>
  StringToNumber :: "string \<Rightarrow> jsnumber"       \<comment> \<open>the numeric value of a string\<close>
  format_number :: "rat \<Rightarrow> string"             \<comment> \<open>how a number that is no integer below \<open>2\<^sup>5\<^sup>3\<close> prints\<close>
  fault_message :: "fault \<Rightarrow> string"           \<comment> \<open>the message of the engine's TypeError\<close>

text \<open>\<^verbatim>\<open>error instanceof Error ? error.message : "Unknown error"\<close>\<close>

definition message_of :: "runtime \<Rightarrow> thrown \<Rightarrow> string" where
  "message_of rt e =
     (case e of
        Error m \<Rightarrow> m
      | TypeError f \<Rightarrow> fault_message rt f
      | NonError \<Rightarrow> ''Unknown error'')"

subsection \<open>Truthiness\<close>

fun truthy :: "jsvalue \<Rightarrow> bool" where
  "truthy Undefined = False"
| "truthy Null = False"
| "truthy (Bool b) = b"
| "truthy (Num n) = (n \<noteq> NaN \<and> n \<noteq> Finite 0)"
| "truthy (Str s) = (s \<noteq> [])"
| "truthy (Arr xs) = True"
| "truthy (Obj ps) = True"

text \<open>\<^verbatim>\<open>a || b\<close>\<close>

definition or_else :: "jsvalue \<Rightarrow> jsvalue \<Rightarrow> jsvalue" where
  "or_else a b = (if truthy a then a else b)"

subsection \<open>Strings\<close>

text \<open>\<^verbatim>\<open>xs.join(sep)\<close> on strings.\<close>

fun join :: "string \<Rightarrow> string list \<Rightarrow> string" where
  "join sep [] = []"
| "join sep [x] = x"
| "join sep (x # y # ys) = x @ sep @ join sep (y # ys)"

text \<open>
  The white space and line terminators that \<^verbatim>\<open>trim\<close> removes, among the code units
  below 256: tab, line feed, vertical tab, form feed, carriage return, space and the
  no-break space.
\<close>

definition is_space :: "char \<Rightarrow> bool" where
  "is_space c = (c \<in> set [CHR 0x09, CHR 0x0A, CHR 0x0B, CHR 0x0C, CHR 0x0D, CHR 0x20, CHR 0xA0])"

definition trim :: "string \<Rightarrow> string" where
  "trim s = rev (dropWhile is_space (rev (dropWhile is_space s)))"

text \<open>
  \<^verbatim>\<open>s.replace(/pat/g, "")\<close> for a pattern of literal characters: the matches are
  found from left to right and do not overlap.
\<close>

function remove_all :: "string \<Rightarrow> string \<Rightarrow> string" where
  "remove_all pat [] = []"
| "remove_all pat (c # cs) =
     (if pat \<noteq> [] \<and> prefix pat (c # cs)
      then remove_all pat (drop (length pat) (c # cs))
      else c # remove_all pat cs)"
  by pat_completeness auto
termination
  by (relation "measure (\<lambda>(pat, s). length s)") (auto simp: Suc_le_eq)

text \<open>The decimal digits of a natural number.\<close>

fun show_nat :: "nat \<Rightarrow> string" where
  "show_nat n =
     (if n < 10 then [''0123456789'' ! n]
      else show_nat (n div 10) @ [''0123456789'' ! (n mod 10)])"

declare show_nat.simps [simp del]

subsection \<open>White space and surrogates\<close>

text \<open>\<open>wide s\<close> is the string \<open>s\<close> as a sequence of code units.\<close>

definition wide :: "string \<Rightarrow> jsstring" where
  "wide s = map of_char s"

text \<open>
  All the white space and line terminators that \<^verbatim>\<open>trim\<close> removes: those of
  \<open>is_space\<close>, U+1680, U+2000 to U+200A, U+2028, U+2029, U+202F, U+205F, U+3000 and
  U+FEFF.
\<close>

definition is_space16 :: "code_unit \<Rightarrow> bool" where
  "is_space16 c =
     (c \<in> set [0x09, 0x0A, 0x0B, 0x0C, 0x0D, 0x20, 0xA0, 0x1680, 0x2028, 0x2029, 0x202F,
               0x205F, 0x3000, 0xFEFF]
      \<or> (0x2000 \<le> c \<and> c \<le> 0x200A))"

definition trim16 :: "jsstring \<Rightarrow> jsstring" where
  "trim16 s = rev (dropWhile is_space16 (rev (dropWhile is_space16 s)))"

text \<open>
  The conversion to a \<^verbatim>\<open>USVString\<close>, which \<^verbatim>\<open>URLSearchParams\<close> applies to every
  name and value it is given: a leading surrogate followed by a trailing one is a pair
  and stays; every other surrogate becomes U+FFFD.
\<close>

definition is_leading :: "code_unit \<Rightarrow> bool" where
  "is_leading c = (0xD800 \<le> c \<and> c \<le> 0xDBFF)"

definition is_trailing :: "code_unit \<Rightarrow> bool" where
  "is_trailing c = (0xDC00 \<le> c \<and> c \<le> 0xDFFF)"

definition is_surrogate :: "code_unit \<Rightarrow> bool" where
  "is_surrogate c = (0xD800 \<le> c \<and> c \<le> 0xDFFF)"

fun toUSVString :: "jsstring \<Rightarrow> jsstring" where
  "toUSVString [] = []"
| "toUSVString [c] = [if is_surrogate c then 0xFFFD else c]"
| "toUSVString (c # d # cs) =
     (if is_leading c \<and> is_trailing d then c # d # toUSVString cs
      else if is_surrogate c then 0xFFFD # toUSVString (d # cs)
      else c # toUSVString (d # cs))"

subsection \<open>Properties\<close>

text \<open>
  A canonical numeric string (\<^verbatim>\<open>"0"\<close>, \<^verbatim>\<open>"17"\<close>; not \<^verbatim>\<open>"01"\<close>) names an element
  of an array and a character of a string.
\<close>

definition is_digit :: "char \<Rightarrow> bool" where
  "is_digit c = (c \<in> set ''0123456789'')"

definition nat_of_digits :: "string \<Rightarrow> nat" where
  "nat_of_digits s = foldl (\<lambda>a c. 10 * a + (of_char c - 48)) 0 s"

definition index_of_key :: "string \<Rightarrow> nat option" where
  "index_of_key k =
     (if k \<noteq> [] \<and> list_all is_digit k \<and> (hd k \<noteq> CHR ''0'' \<or> length k = 1)
      then Some (nat_of_digits k) else None)"

text \<open>
  \<open>own_prop v k\<close> is \<^verbatim>\<open>v[k]\<close> for a value \<open>v\<close> that is neither null nor
  undefined: an own property, an element, a character or the length. Members inherited
  from a prototype are not modelled; none of the names this program reads
  (\<^verbatim>\<open>results\<close>, \<^verbatim>\<open>title\<close>, \<^verbatim>\<open>image\<close>, ...) is one.
\<close>

fun own_prop :: "jsvalue \<Rightarrow> string \<Rightarrow> jsvalue" where
  "own_prop (Obj ps) k = (case map_of ps k of None \<Rightarrow> Undefined | Some v \<Rightarrow> v)"
| "own_prop (Arr xs) k =
     (if k = ''length'' then Num (Finite (of_nat (length xs)))
      else case index_of_key k of
             None \<Rightarrow> Undefined
           | Some i \<Rightarrow> if i < length xs then xs ! i else Undefined)"
| "own_prop (Str s) k =
     (if k = ''length'' then Num (Finite (of_nat (length s)))
      else case index_of_key k of
             None \<Rightarrow> Undefined
           | Some i \<Rightarrow> if i < length s then Str [s ! i] else Undefined)"
| "own_prop v k = Undefined"

text \<open>\<^verbatim>\<open>Array.isArray(v)\<close>, and the elements of an array.\<close>

fun isArray :: "jsvalue \<Rightarrow> bool" where
  "isArray (Arr xs) = True"
| "isArray v = False"

fun elements :: "jsvalue \<Rightarrow> jsvalue list" where
  "elements (Arr xs) = xs"
| "elements v = []"

definition nullish :: "jsvalue \<Rightarrow> bool" where
  "nullish v = (v = Undefined \<or> v = Null)"

text \<open>The fault of reading the member \<open>k\<close> of a value that is null or undefined.\<close>

definition read_fault :: "jsvalue \<Rightarrow> string \<Rightarrow> fault" where
  "read_fault v k = (if v = Null then ReadOfNull k else ReadOfUndefined k)"

text \<open>
  The fault of destructuring the property \<open>k\<close> from a value that is null or undefined;
  \<open>source\<close> is how the engine names what was destructured.
\<close>

definition destructure_fault :: "jsvalue \<Rightarrow> string \<Rightarrow> string \<Rightarrow> fault" where
  "destructure_fault v k source =
     (if v = Null then DestructureNull k source else DestructureUndefined k source)"

text \<open>\<^verbatim>\<open>v.k\<close> throws on null and undefined; \<^verbatim>\<open>v?.k\<close> is undefined there.\<close>

definition get_prop :: "jsvalue \<Rightarrow> string \<Rightarrow> thrown + jsvalue" where
  "get_prop v k = (if nullish v then Inl (TypeError (read_fault v k)) else Inr (own_prop v k))"

definition opt_prop :: "jsvalue \<Rightarrow> string \<Rightarrow> jsvalue" where
  "opt_prop v k = (if nullish v then Undefined else own_prop v k)"

subsection \<open>Conversions\<close>

text \<open>
  \<^verbatim>\<open>Number.prototype.toString\<close> prints the shortest digits that read back as the same
  double. For an integer of magnitude below \<open>2\<^sup>5\<^sup>3\<close> these are all its decimal digits
  (every such integer is a double, and so are its neighbours); how any other finite
  number prints is left to the engine.
\<close>

definition Number_toString :: "runtime \<Rightarrow> jsnumber \<Rightarrow> string" where
  "Number_toString rt n =
     (case n of
        NaN \<Rightarrow> ''NaN''
      | PosInfinity \<Rightarrow> ''Infinity''
      | NegInfinity \<Rightarrow> ''-Infinity''
      | Finite q \<Rightarrow>
          if of_int \<lfloor>q\<rfloor> = q \<and> \<bar>q\<bar> < 2 ^ 53
          then (if q < 0 then ''-'' else []) @ show_nat (nat \<bar>\<lfloor>q\<rfloor>\<bar>)
          else format_number rt q)"

text \<open>
  \<open>ToString\<close> is the conversion behind \<^verbatim>\<open>String(v)\<close>, a template literal and a
  property key; \<open>join_values\<close> is \<^verbatim>\<open>Array.prototype.join\<close>, which prints null and
  undefined elements as the empty string. An object made by JSON has no callable
  property: with an own \<^verbatim>\<open>toString\<close> it cannot be converted (neither that property nor
  any \<^verbatim>\<open>valueOf\<close> yields a primitive), without one it prints as
  \<^verbatim>\<open>[object Object]\<close>.
\<close>

fun ToString :: "runtime \<Rightarrow> jsvalue \<Rightarrow> thrown + string"
  and join_values :: "runtime \<Rightarrow> string \<Rightarrow> jsvalue list \<Rightarrow> thrown + string" where
  "ToString rt Undefined = Inr ''undefined''"
| "ToString rt Null = Inr ''null''"
| "ToString rt (Bool b) = Inr (if b then ''true'' else ''false'')"
| "ToString rt (Num n) = Inr (Number_toString rt n)"
| "ToString rt (Str s) = Inr s"
| "ToString rt (Arr xs) = join_values rt '','' xs"
| "ToString rt (Obj ps) =
     (if ''toString'' \<in> fst ` set ps then Inl (TypeError NotPrimitive)
      else Inr ''[object Object]'')"
| "join_values rt sep [] = Inr []"
| "join_values rt sep (x # xs) =
     (case (if x = Undefined \<or> x = Null then Inr [] else ToString rt x) of
        Inl e \<Rightarrow> Inl e
      | Inr s \<Rightarrow>
          if xs = [] then Inr s
          else (case join_values rt sep xs of
                  Inl e \<Rightarrow> Inl e
                | Inr r \<Rightarrow> Inr (s @ sep @ r)))"

text \<open>\<open>ToNumber\<close> is the conversion behind \<^verbatim>\<open>Number(v)\<close>.\<close>

definition ToNumber :: "runtime \<Rightarrow> jsvalue \<Rightarrow> thrown + jsnumber" where
  "ToNumber rt v =
     (case v of
        Undefined \<Rightarrow> Inr NaN
      | Null \<Rightarrow> Inr (Finite 0)
      | Bool b \<Rightarrow> Inr (Finite (if b then 1 else 0))
      | Num n \<Rightarrow> Inr n
      | Str s \<Rightarrow> Inr (StringToNumber rt s)
      | _ \<Rightarrow> (case ToString rt v of
                Inl e \<Rightarrow> Inl e
              | Inr s \<Rightarrow> Inr (StringToNumber rt s)))"

section \<open>Caption Parser\<close>

text \<open>
  \<^verbatim>\<open>parseMemeCaption\<close> (src/index.ts 589-618, src/app.ts 599-628). The field
  \<^verbatim>\<open>image\<close> of the source is \<open>imageId\<close> here.
\<close>

record MemeCaption =
  imageId :: jsnumber
  topText :: string
  bottomText :: string

text \<open>\<^verbatim>\<open>caption.replace(/```json/g, "").replace(/```/g, "").trim()\<close>\<close>

definition cleaned :: "string \<Rightarrow> string" where
  "cleaned caption = trim (remove_all ''```'' (remove_all ''```json'' caption))"

text \<open>The body of the \<^verbatim>\<open>try\<close> block; \<open>Inr None\<close> is \<^verbatim>\<open>return null\<close>.\<close>

definition parseMemeCaption_try :: "runtime \<Rightarrow> jsvalue \<Rightarrow> thrown + MemeCaption option" where
  "parseMemeCaption_try rt caption =
     (case caption of
        Str s \<Rightarrow>
          (case JSON_parse rt (cleaned s) of
             Inl m \<Rightarrow> Inl (Error m)
           | Inr parsed \<Rightarrow>
               (case get_prop parsed ''image'' of
                  Inl e \<Rightarrow> Inl e
                | Inr img \<Rightarrow>
                    if \<not> truthy img \<or> \<not> truthy (own_prop parsed ''topText'')
                       \<or> \<not> truthy (own_prop parsed ''bottomText'')
                    then Inr None
                    else
                      (case ToNumber rt img of
                         Inl e \<Rightarrow> Inl e
                       | Inr n \<Rightarrow>
                           if n = NaN then Inr None
                           else
                             (case ToString rt (own_prop parsed ''topText'') of
                                Inl e \<Rightarrow> Inl e
                              | Inr text0 \<Rightarrow>
                                  (case ToString rt (own_prop parsed ''bottomText'') of
                                     Inl e \<Rightarrow> Inl e
                                   | Inr text1 \<Rightarrow>
                                       Inr (Some \<lparr>imageId = n, topText = text0,
                                                  bottomText = text1\<rparr>))))))
      | Undefined \<Rightarrow> Inl (TypeError (ReadOfUndefined ''replace''))
      | Null \<Rightarrow> Inl (TypeError (ReadOfNull ''replace''))
      | _ \<Rightarrow> Inl (TypeError (NotCallable ''caption.replace'')))"

text \<open>The \<^verbatim>\<open>catch\<close> returns null whatever was thrown.\<close>

definition parseMemeCaption :: "runtime \<Rightarrow> jsvalue \<Rightarrow> MemeCaption option" where
  "parseMemeCaption rt caption =
     (case parseMemeCaption_try rt caption of Inl e \<Rightarrow> None | Inr r \<Rightarrow> r)"

section \<open>Config Validator\<close>

text \<open>
  \<^verbatim>\<open>validateEnvVars\<close> (src/index.ts 211-225, src/app.ts 297-310). A variable of the
  environment is a string or absent; \<^verbatim>\<open>!process.env[key]\<close> holds when it is absent or
  empty.
\<close>

definition required :: "string list" where
  "required = [''NEWSDATA_API_KEY'', ''GEMINI_API_KEY'', ''IMGFLIP_USERNAME'', ''IMGFLIP_PASSWORD'']"

definition unset :: "runtime \<Rightarrow> string \<Rightarrow> bool" where
  "unset rt key = (case env rt key of None \<Rightarrow> True | Some v \<Rightarrow> v = [])"

definition validateEnvVars :: "runtime \<Rightarrow> thrown + unit" where
  "validateEnvVars rt =
     (let missing = filter (unset rt) required
      in if length missing > 0
         then Inl (Error (''Missing required environment variables: '' @ join '', '' missing))
         else Inr ())"

text \<open>
  \<^verbatim>\<open>process.env.KEY!\<close> where a string is wanted: an absent variable reads as
  undefined, which a template literal and \<^verbatim>\<open>URLSearchParams\<close> print as
  \<^verbatim>\<open>undefined\<close>.
\<close>

definition env_string :: "runtime \<Rightarrow> string \<Rightarrow> string" where
  "env_string rt key = (case env rt key of None \<Rightarrow> ''undefined'' | Some v \<Rightarrow> v)"

text \<open>\<^verbatim>\<open>`${response.status} ${response.statusText}`\<close>\<close>

definition status_line :: "response \<Rightarrow> string" where
  "status_line r = show_nat (status r) @ '' '' @ statusText r"

section \<open>News Client\<close>

text \<open>
  \<^verbatim>\<open>getIndianNewsByTopic\<close> (src/index.ts 402-444, src/app.ts 421-458).
  \<open>news_query\<close> is the \<^verbatim>\<open>URLSearchParams\<close> it builds (lines 408-417) for a topic
  that is a string, given by its code units: the constructor and \<^verbatim>\<open>append\<close> convert
  each value to a \<^verbatim>\<open>USVString\<close>, while \<^verbatim>\<open>topic.trim()\<close> reads the topic itself.
\<close>

definition news_url :: string where
  "news_url = ''https://newsdata.io/api/1/latest''"

definition news_query :: "runtime \<Rightarrow> jsstring \<Rightarrow> (string \<times> jsstring) list" where
  "news_query rt topic =
     [(''apikey'', toUSVString (wide (env_string rt ''NEWSDATA_API_KEY''))),
      (''country'', toUSVString (wide ''in'')),
      (''language'', toUSVString (wide ''en'')),
      (''size'', toUSVString (wide ''10''))]
     @ (if trim16 topic \<noteq> [] then [(''q'', toUSVString topic)] else [])"

text \<open>The body of the \<^verbatim>\<open>try\<close> block.\<close>

definition getIndianNewsByTopic_try ::
  "runtime \<Rightarrow> (string \<times> jsstring) list \<Rightarrow> thrown + jsvalue list" where
  "getIndianNewsByTopic_try rt params =
     (case fetch rt (GetQuery news_url params) of
        Inl e \<Rightarrow> Inl e
      | Inr response \<Rightarrow>
          if \<not> ok response
          then Inl (Error (''NewsData API error: '' @ status_line response))
          else
            (case json response of
               Inl e \<Rightarrow> Inl e
             | Inr data \<Rightarrow>
                 (case get_prop data ''results'' of
                    Inl e \<Rightarrow> Inl e
                  | Inr results \<Rightarrow>
                      if \<not> truthy results \<or> \<not> isArray results then Inr []
                      else Inr (elements results))))"

text \<open>
  The function on a topic of its declared type, a string: it builds the query, and
  whatever the \<^verbatim>\<open>try\<close> block throws is thrown again as a new \<^verbatim>\<open>Error\<close>.
\<close>

definition getIndianNewsByTopic_string :: "runtime \<Rightarrow> jsstring \<Rightarrow> thrown + jsvalue list" where
  "getIndianNewsByTopic_string rt topic =
     (case getIndianNewsByTopic_try rt (news_query rt topic) of
        Inl e \<Rightarrow> Inl (Error (''Failed to fetch news: '' @ message_of rt e))
      | Inr articles \<Rightarrow> Inr articles)"

text \<open>
  The function on the untyped value a handler passes. The parameter defaults to the
  empty string when it is undefined. \<^verbatim>\<open>topic.trim()\<close> stands before the
  \<^verbatim>\<open>try\<close>: on a topic that is no string its TypeError leaves the function as it is.
\<close>

definition getIndianNewsByTopic :: "runtime \<Rightarrow> jsvalue \<Rightarrow> thrown + jsvalue list" where
  "getIndianNewsByTopic rt topic =
     (case (if topic = Undefined then Str [] else topic) of
        Str s \<Rightarrow> getIndianNewsByTopic_string rt (wide s)
      | Null \<Rightarrow> Inl (TypeError (ReadOfNull ''trim''))
      | _ \<Rightarrow> Inl (TypeError (NotCallable ''topic.trim'')))"

section \<open>Template Catalog Client\<close>

text \<open>
  \<^verbatim>\<open>fetchImgflipTemplates\<close> (src/index.ts 558-587, src/app.ts 570-597). The fields
  \<^verbatim>\<open>id\<close> and \<^verbatim>\<open>name\<close> of the source are \<open>template_id\<close> and \<open>template_name\<close>.
\<close>

record ImgflipTemplate =
  template_id :: jsvalue
  template_name :: jsvalue

definition templates_url :: string where
  "templates_url = ''https://api.imgflip.com/get_memes''"

text \<open>
  \<^verbatim>\<open>memes.map(({ id, name }) => ({ id, name }))\<close>: destructuring a null or undefined
  element throws; the parameter has no name, so the engine names the value.
\<close>

fun map_templates :: "jsvalue list \<Rightarrow> thrown + ImgflipTemplate list" where
  "map_templates [] = Inr []"
| "map_templates (m # ms) =
     (if m = Null then Inl (TypeError (DestructureNull ''id'' ''object null''))
      else if m = Undefined then Inl (TypeError (DestructureUndefined ''id'' ''undefined''))
      else (case map_templates ms of
              Inl e \<Rightarrow> Inl e
            | Inr ts \<Rightarrow>
                Inr (\<lparr>template_id = own_prop m ''id'', template_name = own_prop m ''name''\<rparr> # ts)))"

text \<open>
  \<^verbatim>\<open>json.data.memes.slice(0, 100)\<close> and the \<^verbatim>\<open>map\<close> over it. A string has a
  \<^verbatim>\<open>slice\<close> but its result has no \<^verbatim>\<open>map\<close>; no other value has a \<^verbatim>\<open>slice\<close>.
\<close>

definition slice_and_map :: "jsvalue \<Rightarrow> thrown + ImgflipTemplate list" where
  "slice_and_map memes =
     (case memes of
        Arr ms \<Rightarrow> map_templates (take 100 ms)
      | Str s \<Rightarrow> Inl (TypeError (NotCallable ''memes.map''))
      | Undefined \<Rightarrow> Inl (TypeError (ReadOfUndefined ''slice''))
      | Null \<Rightarrow> Inl (TypeError (ReadOfNull ''slice''))
      | _ \<Rightarrow> Inl (TypeError (NotCallable ''json.data.memes.slice'')))"

definition fetchImgflipTemplates_try :: "runtime \<Rightarrow> thrown + ImgflipTemplate list" where
  "fetchImgflipTemplates_try rt =
     (case fetch rt (Get templates_url) of
        Inl e \<Rightarrow> Inl e
      | Inr res \<Rightarrow>
          if \<not> ok res
          then Inl (Error (''Imgflip templates API error: '' @ status_line res))
          else
            (case json res of
               Inl e \<Rightarrow> Inl e
             | Inr body \<Rightarrow>
                 (case get_prop body ''success'' of
                    Inl e \<Rightarrow> Inl e
                  | Inr success \<Rightarrow>
                      if \<not> truthy success
                      then Inl (Error ''Imgflip API returned success: false'')
                      else
                        (case get_prop (own_prop body ''data'') ''memes'' of
                           Inl e \<Rightarrow> Inl e
                         | Inr memes \<Rightarrow> slice_and_map memes))))"

definition fetchImgflipTemplates :: "runtime \<Rightarrow> thrown + ImgflipTemplate list" where
  "fetchImgflipTemplates rt =
     (case fetchImgflipTemplates_try rt of
        Inl e \<Rightarrow> Inl (Error (''Failed to fetch templates: '' @ message_of rt e))
      | Inr templates \<Rightarrow> Inr templates)"

section \<open>Caption Generator\<close>

text \<open>
  \<^verbatim>\<open>generateCaption\<close> (src/index.ts 446-510, src/app.ts 460-523). The two front-ends
  word the prompt differently; nothing else in the function differs.
\<close>

datatype frontend = Stdio | Http   \<comment> \<open>src/index.ts, src/app.ts\<close>

definition newline :: string where
  "newline = [CHR 0x0A]"

definition prompt_text :: "frontend \<Rightarrow> string \<Rightarrow> string \<Rightarrow> string \<Rightarrow> string" where
  \<open>prompt_text fe title description ids =
     (case fe of
        Stdio \<Rightarrow>
          join newline
            [''Generate a meme worthy caption for the following news: '' @ title @ '', '' @ description,
             [],
             ''    Response should be valid JSON in this exact format:'',
             ''    {'',
             ''      "image": <number>,'',
             ''      "topText": "<string>",'',
             ''      "bottomText": "<string>"'',
             ''    }'',
             [],
             ''    The image number should be a template ID from imgflip that'' @ [CHR 0x27]
               @ ''s relevant to this meme.'',
             ''    Choose from these template IDs only: '' @ ids,
             ''    '',
             ''    Make the meme funny and relevant to the news content.'']
      | Http \<Rightarrow>
          join newline
            [''Generate a meme worthy caption for the following news: '' @ title @ '', '' @ description,
             [],
             ''Response should be valid JSON in this exact format:'',
             ''{'',
             ''  "image": <template_id>,'',
             ''  "topText": "<top_text>",'',
             ''  "bottomText": "<bottom_text>"'',
             ''}'',
             [],
             ''The image number should be a template ID from imgflip that'' @ [CHR 0x27]
               @ ''s relevant to this meme.'',
             ''Choose from these template IDs only: '' @ ids,
             ''Make the meme funny and relevant to the news content.''])\<close>

text \<open>\<^verbatim>\<open>availableTemplates.join(", ")\<close>: only an array has a \<^verbatim>\<open>join\<close>.\<close>

definition call_join :: "runtime \<Rightarrow> jsvalue \<Rightarrow> thrown + string" where
  "call_join rt availableTemplates =
     (case availableTemplates of
        Arr ids \<Rightarrow> join_values rt '', '' ids
      | Undefined \<Rightarrow> Inl (TypeError (ReadOfUndefined ''join''))
      | Null \<Rightarrow> Inl (TypeError (ReadOfNull ''join''))
      | _ \<Rightarrow> Inl (TypeError (NotCallable ''availableTemplates.join'')))"

text \<open>The template literal converts its three holes from left to right.\<close>

definition prompt :: "frontend \<Rightarrow> runtime \<Rightarrow> jsvalue \<Rightarrow> jsvalue \<Rightarrow> jsvalue \<Rightarrow> thrown + string" where
  "prompt fe rt title description availableTemplates =
     (case ToString rt title of
        Inl e \<Rightarrow> Inl e
      | Inr t \<Rightarrow>
          (case ToString rt description of
             Inl e \<Rightarrow> Inl e
           | Inr d \<Rightarrow>
               (case call_join rt availableTemplates of
                  Inl e \<Rightarrow> Inl e
                | Inr ids \<Rightarrow> Inr (prompt_text fe t d ids))))"

definition gemini_url :: "runtime \<Rightarrow> string" where
  "gemini_url rt =
     ''https://generativelanguage.googleapis.com/v1beta/models/gemini-2.0-flash:generateContent?key=''
     @ env_string rt ''GEMINI_API_KEY''"

definition gemini_body :: "string \<Rightarrow> jsvalue" where
  "gemini_body p = Obj [(''contents'', Arr [Obj [(''parts'', Arr [Obj [(''text'', Str p)]])]])]"

text \<open>\<^verbatim>\<open>data?.candidates?.[0]?.content?.parts?.[0]?.text || ""\<close>\<close>

definition gemini_output :: "jsvalue \<Rightarrow> jsvalue" where
  "gemini_output data =
     or_else
       (opt_prop (opt_prop (opt_prop (opt_prop (opt_prop (opt_prop data
          ''candidates'') ''0'') ''content'') ''parts'') ''0'') ''text'')
       (Str [])"

definition generateCaption_try :: "runtime \<Rightarrow> string \<Rightarrow> thrown + MemeCaption option" where
  "generateCaption_try rt p =
     (case fetch rt (PostJson (gemini_url rt) (gemini_body p)) of
        Inl e \<Rightarrow> Inl e
      | Inr res \<Rightarrow>
          if \<not> ok res
          then Inl (Error (''Gemini API error: '' @ status_line res))
          else
            (case json res of
               Inl e \<Rightarrow> Inl e
             | Inr data \<Rightarrow>
                 let output = gemini_output data
                 in if \<not> truthy output then Inr None
                    else Inr (parseMemeCaption rt output)))"

text \<open>
  The prompt is built before the \<^verbatim>\<open>try\<close>, so what its conversions throw leaves the
  function as it is.
\<close>

definition generateCaption ::
  "frontend \<Rightarrow> runtime \<Rightarrow> jsvalue \<Rightarrow> jsvalue \<Rightarrow> jsvalue \<Rightarrow> thrown + MemeCaption option" where
  "generateCaption fe rt title description availableTemplates =
     (case prompt fe rt title description availableTemplates of
        Inl e \<Rightarrow> Inl e
      | Inr p \<Rightarrow>
          (case generateCaption_try rt p of
             Inl e \<Rightarrow> Inl (Error (''Failed to generate caption: '' @ message_of rt e))
           | Inr caption \<Rightarrow> Inr caption))"

section \<open>Meme Renderer Client\<close>

text \<open>\<^verbatim>\<open>generateMeme\<close> (src/index.ts 512-556, src/app.ts 525-568).\<close>

definition caption_url :: string where
  "caption_url = ''https://api.imgflip.com/caption_image''"

text \<open>
  \<^verbatim>\<open>templateId.toString()\<close>, a method call: an own property \<^verbatim>\<open>toString\<close> of an
  object made by JSON is not callable.
\<close>

definition call_toString :: "runtime \<Rightarrow> jsvalue \<Rightarrow> thrown + string" where
  "call_toString rt v =
     (case v of
        Undefined \<Rightarrow> Inl (TypeError (ReadOfUndefined ''toString''))
      | Null \<Rightarrow> Inl (TypeError (ReadOfNull ''toString''))
      | Obj ps \<Rightarrow>
          if ''toString'' \<in> fst ` set ps then Inl (TypeError (NotCallable ''templateId.toString''))
          else Inr ''[object Object]''
      | _ \<Rightarrow> ToString rt v)"

text \<open>\<^verbatim>\<open>new URLSearchParams({...})\<close> converts each value to a string, in order.\<close>

definition meme_params ::
  "runtime \<Rightarrow> jsvalue \<Rightarrow> jsvalue \<Rightarrow> jsvalue \<Rightarrow> thrown + (string \<times> string) list" where
  "meme_params rt templateId top_text bottom_text =
     (case call_toString rt templateId of
        Inl e \<Rightarrow> Inl e
      | Inr tid \<Rightarrow>
          (case ToString rt top_text of
             Inl e \<Rightarrow> Inl e
           | Inr text0 \<Rightarrow>
               (case ToString rt bottom_text of
                  Inl e \<Rightarrow> Inl e
                | Inr text1 \<Rightarrow>
                    Inr [(''template_id'', tid),
                         (''username'', env_string rt ''IMGFLIP_USERNAME''),
                         (''password'', env_string rt ''IMGFLIP_PASSWORD''),
                         (''text0'', text0),
                         (''text1'', text1)])))"

definition generateMeme_try :: "runtime \<Rightarrow> (string \<times> string) list \<Rightarrow> thrown + jsvalue" where
  "generateMeme_try rt params =
     (case fetch rt (PostForm caption_url params) of
        Inl e \<Rightarrow> Inl e
      | Inr res \<Rightarrow>
          if \<not> ok res
          then Inl (Error (''Imgflip API error: '' @ status_line res))
          else
            (case json res of
               Inl e \<Rightarrow> Inl e
             | Inr data \<Rightarrow>
                 (case get_prop data ''success'' of
                    Inl e \<Rightarrow> Inl e
                  | Inr success \<Rightarrow>
                      if \<not> truthy success
                      then (case ToString rt (own_prop data ''error_message'') of
                              Inl e \<Rightarrow> Inl e
                            | Inr m \<Rightarrow> Inl (Error (''Imgflip API error: '' @ m)))
                      else Inr (or_else (opt_prop (own_prop data ''data'') ''url'') Null))))"

definition generateMeme :: "runtime \<Rightarrow> jsvalue \<Rightarrow> jsvalue \<Rightarrow> jsvalue \<Rightarrow> thrown + jsvalue" where
  "generateMeme rt templateId top_text bottom_text =
     (case meme_params rt templateId top_text bottom_text of
        Inl e \<Rightarrow> Inl e
      | Inr params \<Rightarrow>
          (case generateMeme_try rt params of
             Inl e \<Rightarrow> Inl (Error (''Failed to generate meme: '' @ message_of rt e))
           | Inr memeUrl \<Rightarrow> Inr memeUrl))"

section \<open>Handlers\<close>

text \<open>
  What a handler returns on success. src/index.ts wraps it as the text
  \<^verbatim>\<open>JSON.stringify({success: true, ...}, null, 2)\<close>, src/app.ts returns the object
  itself; the model keeps the fields.
\<close>

datatype payload =
    NewsPayload nat "jsvalue list"                     \<comment> \<open>count, articles\<close>
  | TemplatesPayload nat "ImgflipTemplate list"        \<comment> \<open>count, templates\<close>
  | CaptionPayload "MemeCaption option"                \<comment> \<open>caption\<close>
  | MemePayload jsvalue                                \<comment> \<open>memeUrl\<close>
  | NewsMemePayload jsvalue jsvalue MemeCaption jsvalue
      \<comment> \<open>article.title, article.description, caption, memeUrl\<close>

text \<open>
  The handlers of src/index.ts that need credentials open with
  \<^verbatim>\<open>this.validateEnvVars()\<close>; those of src/app.ts do not, their caller
  \<^verbatim>\<open>handleToolRequest\<close> does.
\<close>

definition handler_guard :: "frontend \<Rightarrow> runtime \<Rightarrow> thrown + unit" where
  "handler_guard fe rt = (case fe of Stdio \<Rightarrow> validateEnvVars rt | Http \<Rightarrow> Inr ())"

text \<open>\<^verbatim>\<open>handleFetchNews\<close> (src/index.ts 227-248, src/app.ts 312-320)\<close>

definition handleFetchNews :: "frontend \<Rightarrow> runtime \<Rightarrow> jsvalue \<Rightarrow> thrown + payload" where
  "handleFetchNews fe rt args =
     (case handler_guard fe rt of
        Inl e \<Rightarrow> Inl e
      | Inr _ \<Rightarrow>
          let topic = or_else (opt_prop args ''topic'') (Str [])
          in (case getIndianNewsByTopic rt topic of
                Inl e \<Rightarrow> Inl e
              | Inr news \<Rightarrow> Inr (NewsPayload (length news) news)))"

text \<open>\<^verbatim>\<open>handleGetTemplates\<close> (src/index.ts 250-269, src/app.ts 322-329)\<close>

definition handleGetTemplates :: "frontend \<Rightarrow> runtime \<Rightarrow> jsvalue \<Rightarrow> thrown + payload" where
  "handleGetTemplates fe rt args =
     (case fetchImgflipTemplates rt of
        Inl e \<Rightarrow> Inl e
      | Inr templates \<Rightarrow> Inr (TemplatesPayload (length templates) templates))"

text \<open>
  \<^verbatim>\<open>handleGenerateCaption\<close> (src/index.ts 271-302, src/app.ts 331-348). Destructuring
  \<^verbatim>\<open>args\<close> throws when it is null or undefined.
\<close>

definition handleGenerateCaption :: "frontend \<Rightarrow> runtime \<Rightarrow> jsvalue \<Rightarrow> thrown + payload" where
  "handleGenerateCaption fe rt args =
     (case handler_guard fe rt of
        Inl e \<Rightarrow> Inl e
      | Inr _ \<Rightarrow>
          if nullish args then Inl (TypeError (destructure_fault args ''title'' ''args''))
          else
            let title = own_prop args ''title'';
                description = own_prop args ''description'';
                availableTemplates = own_prop args ''availableTemplates''
            in if \<not> truthy title \<or> \<not> truthy description \<or> \<not> truthy availableTemplates
               then Inl (Error ''Missing required parameters: title, description, availableTemplates'')
               else (case generateCaption fe rt title description availableTemplates of
                       Inl e \<Rightarrow> Inl e
                     | Inr caption \<Rightarrow> Inr (CaptionPayload caption)))"

text \<open>\<^verbatim>\<open>handleCreateMeme\<close> (src/index.ts 304-331, src/app.ts 350-363)\<close>

definition handleCreateMeme :: "frontend \<Rightarrow> runtime \<Rightarrow> jsvalue \<Rightarrow> thrown + payload" where
  "handleCreateMeme fe rt args =
     (case handler_guard fe rt of
        Inl e \<Rightarrow> Inl e
      | Inr _ \<Rightarrow>
          if nullish args then Inl (TypeError (destructure_fault args ''templateId'' ''args''))
          else
            let templateId = own_prop args ''templateId'';
                top_text = own_prop args ''topText'';
                bottom_text = own_prop args ''bottomText''
            in if \<not> truthy templateId \<or> \<not> truthy top_text \<or> \<not> truthy bottom_text
               then Inl (Error ''Missing required parameters: templateId, topText, bottomText'')
               else (case generateMeme rt templateId top_text bottom_text of
                       Inl e \<Rightarrow> Inl e
                     | Inr memeUrl \<Rightarrow> Inr (MemePayload memeUrl)))"

section \<open>Workflow Orchestrator\<close>

text \<open>
  \<^verbatim>\<open>news[articleIndex]\<close>. A number names an element exactly when it is a
  non-negative integer below the length; any other key goes through its string. (A key
  that names a member inherited from \<^verbatim>\<open>Array.prototype\<close> reads as undefined here and
  as a function in the engine: both lack a \<^verbatim>\<open>title\<close>.)
\<close>

definition element_at :: "runtime \<Rightarrow> jsvalue list \<Rightarrow> jsvalue \<Rightarrow> thrown + jsvalue" where
  "element_at rt xs key =
     (case key of
        Num n \<Rightarrow>
          Inr (case n of
                 Finite q \<Rightarrow>
                   if 0 \<le> q \<and> of_int \<lfloor>q\<rfloor> = q \<and> nat \<lfloor>q\<rfloor> < length xs
                   then xs ! nat \<lfloor>q\<rfloor> else Undefined
               | _ \<Rightarrow> Undefined)
      | _ \<Rightarrow>
          (case ToString rt key of
             Inl e \<Rightarrow> Inl e
           | Inr k \<Rightarrow> Inr (own_prop (Arr xs) k)))"

text \<open>
  \<^verbatim>\<open>handleGenerateNewsMeme\<close> (src/index.ts 333-399, src/app.ts 365-418): first the
  body of its \<^verbatim>\<open>try\<close> block, then the function.
\<close>

definition handleGenerateNewsMeme_try ::
  "frontend \<Rightarrow> runtime \<Rightarrow> jsvalue \<Rightarrow> jsvalue \<Rightarrow> thrown + payload" where
  "handleGenerateNewsMeme_try fe rt topic articleIndex =
     (case getIndianNewsByTopic rt topic of
        Inl e \<Rightarrow> Inl e
      | Inr news \<Rightarrow>
          if length news = 0 then Inl (Error ''No news articles found'')
          else
            (case element_at rt news articleIndex of
               Inl e \<Rightarrow> Inl e
             | Inr article \<Rightarrow>
                 if \<not> truthy article \<or> \<not> truthy (own_prop article ''title'')
                    \<or> \<not> truthy (own_prop article ''description'')
                 then Inl (Error ''Selected article missing title or description'')
                 else
                   (case fetchImgflipTemplates rt of
                      Inl e \<Rightarrow> Inl e
                    | Inr templates \<Rightarrow>
                        let templateIds = map template_id templates
                        in (case generateCaption fe rt (own_prop article ''title'')
                                   (own_prop article ''description'') (Arr templateIds) of
                              Inl e \<Rightarrow> Inl e
                            | Inr None \<Rightarrow> Inl (Error ''Failed to generate meme caption'')
                            | Inr (Some caption) \<Rightarrow>
                                (case generateMeme rt (Num (imageId caption))
                                        (Str (topText caption)) (Str (bottomText caption)) of
                                   Inl e \<Rightarrow> Inl e
                                 | Inr memeUrl \<Rightarrow>
                                     Inr (NewsMemePayload (own_prop article ''title'')
                                            (own_prop article ''description'') caption memeUrl))))))"

definition handleGenerateNewsMeme :: "frontend \<Rightarrow> runtime \<Rightarrow> jsvalue \<Rightarrow> thrown + payload" where
  "handleGenerateNewsMeme fe rt args =
     (case handler_guard fe rt of
        Inl e \<Rightarrow> Inl e
      | Inr _ \<Rightarrow>
          let topic = or_else (opt_prop args ''topic'') (Str []);
              articleIndex = or_else (opt_prop args ''articleIndex'') (Num (Finite 0))
          in (case handleGenerateNewsMeme_try fe rt topic articleIndex of
                Inl e \<Rightarrow> Inl (Error (''Failed to generate news meme: '' @ message_of rt e))
              | Inr result \<Rightarrow> Inr result))"

section \<open>Transport front-ends\<close>

text \<open>The \<^verbatim>\<open>switch\<close> over the tool's name, the same in both front-ends.\<close>

definition call_handler :: "frontend \<Rightarrow> runtime \<Rightarrow> string \<Rightarrow> jsvalue \<Rightarrow> thrown + payload" where
  "call_handler fe rt name args =
     (if name = ''fetch_indian_news'' then handleFetchNews fe rt args
      else if name = ''get_meme_templates'' then handleGetTemplates fe rt args
      else if name = ''generate_meme_caption'' then handleGenerateCaption fe rt args
      else if name = ''create_meme'' then handleCreateMeme fe rt args
      else if name = ''generate_news_meme'' then handleGenerateNewsMeme fe rt args
      else Inl (Error (''Unknown tool: '' @ name)))"

text \<open>
  What the caller receives: the payload, or an error text (in src/index.ts the text
  content of the reply, in src/app.ts the \<^verbatim>\<open>error\<close> field of a status-500 reply).
\<close>

datatype reply = Reply payload | ErrorReply string

text \<open>The handler of \<^verbatim>\<open>CallToolRequestSchema\<close> (src/index.ts 178-208)\<close>

definition callTool :: "runtime \<Rightarrow> string \<Rightarrow> jsvalue \<Rightarrow> reply" where
  "callTool rt name args =
     (case call_handler Stdio rt name args of
        Inl e \<Rightarrow> ErrorReply (''Error: '' @ message_of rt e)
      | Inr result \<Rightarrow> Reply result)"

text \<open>\<^verbatim>\<open>handleToolRequest\<close> (src/app.ts 146-182)\<close>

definition handleToolRequest :: "runtime \<Rightarrow> string \<Rightarrow> jsvalue \<Rightarrow> reply" where
  "handleToolRequest rt toolName args =
     (case validateEnvVars rt of
        Inl e \<Rightarrow> ErrorReply (message_of rt e)
      | Inr _ \<Rightarrow>
          (case call_handler Http rt toolName args of
             Inl e \<Rightarrow> ErrorReply (message_of rt e)
           | Inr result \<Rightarrow> Reply result))"

section \<open>Example runtimes\<close>

text \<open>
  Concrete runtimes on which the theorems below are instantiated and the code is run.
  Their built-ins are those of Node.js as far as the examples consult them: the
  TypeError messages of its engine V8, the numeric value of a canonical decimal string
  (every other string the examples convert is no number), and \<^verbatim>\<open>JSON.parse\<close> on the
  few texts an example hands to it. No example prints a number other than an integer
  below \<open>2\<^sup>5\<^sup>3\<close>, so \<open>format_number\<close> is never consulted.
\<close>

definition credentials :: "string \<rightharpoonup> string" where
  "credentials =
     [''NEWSDATA_API_KEY'' \<mapsto> ''news-key'', ''GEMINI_API_KEY'' \<mapsto> ''gemini-key'',
      ''IMGFLIP_USERNAME'' \<mapsto> ''user'', ''IMGFLIP_PASSWORD'' \<mapsto> ''secret'']"

definition quoted :: "string \<Rightarrow> string" where
  "quoted s = [CHR 0x27] @ s @ [CHR 0x27]"

definition example_fault_message :: "fault \<Rightarrow> string" where
  "example_fault_message f =
     (case f of
        ReadOfNull k \<Rightarrow> ''Cannot read properties of null (reading '' @ quoted k @ '')''
      | ReadOfUndefined k \<Rightarrow> ''Cannot read properties of undefined (reading '' @ quoted k @ '')''
      | DestructureNull k source \<Rightarrow>
          ''Cannot destructure property '' @ quoted k @ '' of '' @ quoted source
          @ '' as it is null.''
      | DestructureUndefined k source \<Rightarrow>
          ''Cannot destructure property '' @ quoted k @ '' of '' @ quoted source
          @ '' as it is undefined.''
      | NotCallable m \<Rightarrow> m @ '' is not a function''
      | NotPrimitive \<Rightarrow> ''Cannot convert object to primitive value'')"

definition example_runtime ::
  "(string \<rightharpoonup> string) \<Rightarrow> (request \<Rightarrow> thrown + response) \<Rightarrow> (string \<Rightarrow> string + jsvalue) \<Rightarrow> runtime" where
  "example_runtime vars network parse =
     \<lparr>env = vars, fetch = network, JSON_parse = parse,
      StringToNumber = (\<lambda>s. case index_of_key s of None \<Rightarrow> NaN | Some n \<Rightarrow> Finite (of_nat n)),
      format_number = (\<lambda>q. ''1.5''),
      fault_message = example_fault_message\<rparr>"

definition offline :: "request \<Rightarrow> thrown + response" where
  "offline r = Inl (Error ''fetch failed'')"

definition no_json :: "string \<Rightarrow> string + jsvalue" where
  "no_json s = Inl ''Unexpected token''"

definition reply_200 :: "jsvalue \<Rightarrow> thrown + response" where
  "reply_200 body = Inr \<lparr>status = 200, statusText = ''OK'', json = Inr body\<rparr>"

text \<open>An environment in which two of the four credentials are missing or empty.\<close>

definition two_missing :: "string \<rightharpoonup> string" where
  "two_missing =
     [''NEWSDATA_API_KEY'' \<mapsto> ''news-key'', ''GEMINI_API_KEY'' \<mapsto> [],
      ''IMGFLIP_USERNAME'' \<mapsto> ''user'']"

text \<open>A network that answers the news query with status 200 and the given body.\<close>

definition news_only :: "jsvalue \<Rightarrow> request \<Rightarrow> thrown + response" where
  "news_only body r =
     (case r of GetQuery u ps \<Rightarrow> reply_200 body | _ \<Rightarrow> Inl (Error ''fetch failed''))"

text \<open>A network that answers one request only, with status 200 and the given body.\<close>

definition answers_only :: "request \<Rightarrow> jsvalue \<Rightarrow> request \<Rightarrow> thrown + response" where
  "answers_only expected body r =
     (if r = expected then reply_200 body else Inl (Error ''fetch failed''))"

definition sample_article :: jsvalue where
  "sample_article = Obj [(''title'', Str ''Title''), (''description'', Str ''Description'')]"

definition eleven_results :: jsvalue where
  "eleven_results = Obj [(''status'', Str ''success''), (''results'', Arr (replicate 11 sample_article))]"

text \<open>
  A network that answers the catalog request with status 200 and the given body, and a
  catalog of 152 entries, each with more fields than \<^verbatim>\<open>id\<close> and \<^verbatim>\<open>name\<close>.
\<close>

definition templates_only :: "jsvalue \<Rightarrow> request \<Rightarrow> thrown + response" where
  "templates_only body r =
     (case r of Get u \<Rightarrow> reply_200 body | _ \<Rightarrow> Inl (Error ''fetch failed''))"

definition sample_meme :: "string \<Rightarrow> string \<Rightarrow> jsvalue" where
  "sample_meme i n =
     Obj [(''id'', Str i), (''name'', Str n), (''url'', Str ''https://i.imgflip.com/x.jpg''),
          (''box_count'', Num (Finite 2))]"

definition sample_catalog :: jsvalue where
  "sample_catalog =
     Obj [(''success'', Bool True),
          (''data'', Obj [(''memes'',
             Arr (sample_meme ''181913649'' ''Drake Hotline Bling''
                  # sample_meme ''87743020'' ''Two Buttons''
                  # replicate 150 (sample_meme ''112126428'' ''Distracted Boyfriend'')))])]"

text \<open>
  \<^verbatim>\<open>JSON.parse\<close> on four texts: the caption of the specification, a caption without
  \<^verbatim>\<open>image\<close>, one whose \<^verbatim>\<open>image\<close> is the string \<^verbatim>\<open>abc\<close> and one whose \<^verbatim>\<open>image\<close> is
  the string \<^verbatim>\<open>87\<close>. Any other text is taken to be no JSON.
\<close>

definition caption_text :: string where
  \<open>caption_text = ''{"image": 101, "topText": "A", "bottomText": "B"}''\<close>

definition caption_object :: jsvalue where
  "caption_object =
     Obj [(''image'', Num (Finite 101)), (''topText'', Str ''A''), (''bottomText'', Str ''B'')]"

definition sample_parse :: "string \<Rightarrow> string + jsvalue" where
  \<open>sample_parse s =
     (case map_of
        [(caption_text, caption_object),
         (''{"topText": "A", "bottomText": "B"}'',
          Obj [(''topText'', Str ''A''), (''bottomText'', Str ''B'')]),
         (''{"image": "abc", "topText": "A", "bottomText": "B"}'',
          Obj [(''image'', Str ''abc''), (''topText'', Str ''A''), (''bottomText'', Str ''B'')]),
         (''{"image": "87", "topText": "A", "bottomText": "B"}'',
          Obj [(''image'', Str ''87''), (''topText'', Str ''A''), (''bottomText'', Str ''B'')])] s of
        None \<Rightarrow> Inl ''Unexpected token''
      | Some v \<Rightarrow> Inr v)\<close>


definition three_results :: jsvalue where
  "three_results = Obj [(''results'', Arr (replicate 3 sample_article))]"





text \<open>Arguments of \<^verbatim>\<open>create_meme\<close> and of \<^verbatim>\<open>generate_meme_caption\<close> with a falsy value.\<close>

definition zero_template :: jsvalue where
  "zero_template =
     Obj [(''templateId'', Num (Finite 0)), (''topText'', Str ''top''), (''bottomText'', Str ''bottom'')]"

definition empty_title :: jsvalue where
  "empty_title =
     Obj [(''title'', Str []), (''description'', Str ''Description''),
          (''availableTemplates'', Arr [Num (Finite 101)])]"


definition cricket :: jsvalue where
  "cricket = Obj [(''topic'', Str ''cricket'')]"

section \<open>Strings: lemmas\<close>

lemma sublist_after: "sublist xs ys \<Longrightarrow> sublist xs (ps @ ys)"
proof -
  assume "sublist xs ys"
  then obtain as bs where "ys = as @ xs @ bs" by (auto simp: sublist_def)
  then have "ps @ ys = (ps @ as) @ xs @ bs" by simp
  then show ?thesis unfolding sublist_def by blast
qed

lemma sublist_join: "k \<in> set xs \<Longrightarrow> sublist k (join sep xs)"
proof (induction sep xs rule: join.induct)
  case (1 sep)
  then show ?case by simp
next
  case (2 sep x)
  then show ?case by simp
next
  case (3 sep x y ys)
  show ?case
  proof (cases "k = x")
    case True
    then show ?thesis by simp
  next
    case False
    with 3 have "sublist k (join sep (y # ys))" by simp
    then have "sublist k ((x @ sep) @ join sep (y # ys))" by (rule sublist_after)
    then show ?thesis by simp
  qed
qed

section \<open>Config Validator: the credentials check\<close>

text \<open>
  Claim C9. For every environment, \<open>validateEnvVars\<close> succeeds exactly when each of the
  four required credentials is present and not empty. Otherwise it throws an
  \<^verbatim>\<open>Error\<close> whose message lists the missing names, all of them, so every missing name
  is a substring of the message. The function only reads the environment.
\<close>

theorem validateEnvVars_names_all_missing:
  "(validateEnvVars rt = Inr () \<longleftrightarrow> (\<forall>k \<in> set required. \<exists>v. env rt k = Some v \<and> v \<noteq> []))
   \<and> (validateEnvVars rt \<noteq> Inr () \<longrightarrow>
        validateEnvVars rt =
          Inl (Error (''Missing required environment variables: ''
                      @ join '', '' (filter (unset rt) required)))
        \<and> (\<forall>k \<in> set required. unset rt k \<longrightarrow>
              sublist k (''Missing required environment variables: ''
                         @ join '', '' (filter (unset rt) required))))"
proof -
  have succeeds: "validateEnvVars rt = Inr () \<longleftrightarrow> filter (unset rt) required = []"
    by (simp add: validateEnvVars_def Let_def)
  have none_unset:
    "filter (unset rt) required = [] \<longleftrightarrow> (\<forall>k \<in> set required. \<exists>v. env rt k = Some v \<and> v \<noteq> [])"
    by (auto simp: filter_empty_conv unset_def split: option.splits)
  have fails: "validateEnvVars rt \<noteq> Inr () \<Longrightarrow>
      validateEnvVars rt =
        Inl (Error (''Missing required environment variables: ''
                    @ join '', '' (filter (unset rt) required)))"
    by (simp add: validateEnvVars_def Let_def split: if_splits)
  have named: "sublist k (''Missing required environment variables: ''
                         @ join '', '' (filter (unset rt) required))"
    if "k \<in> set required" "unset rt k" for k
  proof -
    from that have "k \<in> set (filter (unset rt) required)" by simp
    then have "sublist k (join '', '' (filter (unset rt) required))" by (rule sublist_join)
    then show ?thesis by (rule sublist_after)
  qed
  from succeeds none_unset fails named show ?thesis by blast
qed

text \<open>
  With all four credentials set the check passes; with \<^verbatim>\<open>GEMINI_API_KEY\<close> empty and
  \<^verbatim>\<open>IMGFLIP_PASSWORD\<close> absent the message names both.
\<close>

theorem validateEnvVars_witness:
  "validateEnvVars (example_runtime credentials offline no_json) = Inr ()
   \<and> validateEnvVars (example_runtime two_missing offline no_json) =
       Inl (Error ''Missing required environment variables: GEMINI_API_KEY, IMGFLIP_PASSWORD'')
   \<and> sublist ''GEMINI_API_KEY''
       ''Missing required environment variables: GEMINI_API_KEY, IMGFLIP_PASSWORD''
   \<and> sublist ''IMGFLIP_PASSWORD''
       ''Missing required environment variables: GEMINI_API_KEY, IMGFLIP_PASSWORD''"
  using validateEnvVars_names_all_missing [of "example_runtime credentials offline no_json"]
    validateEnvVars_names_all_missing [of "example_runtime two_missing offline no_json"]
  by (simp add: required_def unset_def example_runtime_def credentials_def two_missing_def)

section \<open>News Client: the query and the result\<close>

lemma trim16_empty_iff: "trim16 s = [] \<longleftrightarrow> (\<forall>c \<in> set s. is_space16 c)"
proof -
  have "trim16 s = [] \<longleftrightarrow> (\<forall>c \<in> set (dropWhile is_space16 s). is_space16 c)"
    by (simp add: trim16_def dropWhile_eq_Nil_conv)
  also have "\<dots> \<longleftrightarrow> dropWhile is_space16 s = []"
  proof
    assume all: "\<forall>c \<in> set (dropWhile is_space16 s). is_space16 c"
    show "dropWhile is_space16 s = []"
    proof (rule ccontr)
      assume ne: "dropWhile is_space16 s \<noteq> []"
      then have "\<not> is_space16 (hd (dropWhile is_space16 s))" by (rule hd_dropWhile)
      moreover from ne have "hd (dropWhile is_space16 s) \<in> set (dropWhile is_space16 s)" by simp
      ultimately show False using all by blast
    qed
  next
    assume none: "dropWhile is_space16 s = []"
    show "\<forall>c \<in> set (dropWhile is_space16 s). is_space16 c" unfolding none by simp
  qed
  also have "\<dots> \<longleftrightarrow> (\<forall>c \<in> set s. is_space16 c)"
    by (rule dropWhile_eq_Nil_conv)
  finally show ?thesis .
qed

text \<open>
  The conversion to a string of scalar values leaves a string without surrogates as it
  is; the strings of the program text and of the environment are of this kind.
\<close>

lemma toUSVString_unchanged:
  "\<forall>c \<in> set s. \<not> is_surrogate c \<Longrightarrow> toUSVString s = s"
proof (induction s rule: toUSVString.induct)
  case 1
  then show ?case by simp
next
  case (2 c)
  then show ?case by simp
next
  case (3 c d cs)
  then have "\<not> is_surrogate c" by simp
  then have "\<not> is_leading c"
    by (auto simp: is_surrogate_def is_leading_def word_le_nat_alt)
  with 3 show ?case by simp
qed

lemma unat_of_char: "unat (of_char c :: code_unit) = of_char c"
proof -
  have "(of_char c :: code_unit) = of_nat (of_char c)" by (simp only: of_nat_of_char)
  then have "unat (of_char c :: code_unit) = of_char c mod 2 ^ 16"
    by (simp only: unat_of_nat) simp
  moreover have "(of_char c :: nat) < 2 ^ 16"
    by (rule less_trans [OF nat_of_char_less_256]) simp
  ultimately show ?thesis by simp
qed

lemma wide_no_surrogate: "\<forall>c \<in> set (wide s). \<not> is_surrogate c"
proof
  fix c assume "c \<in> set (wide s)"
  then obtain d where "c = of_char d" by (auto simp: wide_def)
  moreover have "unat (of_char d :: code_unit) < 256"
    using nat_of_char_less_256 [of d] by (simp only: unat_of_char)
  ultimately show "\<not> is_surrogate c"
    by (simp add: is_surrogate_def word_le_nat_alt)
qed

lemma toUSVString_wide: "toUSVString (wide s) = wide s"
  using wide_no_surrogate by (rule toUSVString_unchanged)

text \<open>
  What the client returns on a reply with status 200: the \<^verbatim>\<open>results\<close> array as it
  is, of whatever length, and the empty list when the body is a value other than null
  whose \<^verbatim>\<open>results\<close> is no array.
\<close>

lemma news_not_truncated:
  assumes "fetch rt (GetQuery news_url (news_query rt topic)) = Inr res"
    and "ok res" and "json res = Inr data" and "own_prop data ''results'' = Arr articles"
  shows "getIndianNewsByTopic_string rt topic = Inr articles"
proof -
  from assms(4) have "\<not> nullish data" by (auto simp: nullish_def)
  with assms show ?thesis
    by (simp add: getIndianNewsByTopic_string_def getIndianNewsByTopic_try_def get_prop_def)
qed

lemma news_malformed_is_empty:
  assumes "fetch rt (GetQuery news_url (news_query rt topic)) = Inr res"
    and "ok res" and "json res = Inr data" and "\<not> nullish data"
    and "\<not> isArray (own_prop data ''results'')"
  shows "getIndianNewsByTopic_string rt topic = Inr []"
  using assms
  by (simp add: getIndianNewsByTopic_string_def getIndianNewsByTopic_try_def get_prop_def)

text \<open>
  Claim C6 says that for every topic that is not blank the query carries the topic
  verbatim as its \<^verbatim>\<open>q\<close> parameter. The query is a \<^verbatim>\<open>URLSearchParams\<close>, which
  converts each value to a string of scalar values: a surrogate without its partner is
  replaced by U+FFFD. For the topic of the two code units D800 and 0061 (a lone leading
  surrogate and the letter a) the \<^verbatim>\<open>q\<close> parameter is FFFD 0061, which is not the
  topic; a service that answers only the query with the topic verbatim is never asked,
  and one that answers only the query with FFFD 0061 is.
\<close>

theorem news_query_lone_surrogate:
  "trim16 [0xD800, 0x61] \<noteq> []
   \<and> news_query (example_runtime credentials offline no_json) [0xD800, 0x61]
       = [(''apikey'', wide ''news-key''), (''country'', wide ''in''), (''language'', wide ''en''),
          (''size'', wide ''10''), (''q'', [0xFFFD, 0x61])]
   \<and> [0xFFFD, 0x61] \<noteq> [0xD800, 0x61 :: code_unit]
   \<and> getIndianNewsByTopic_string
        (example_runtime credentials
           (answers_only
              (GetQuery news_url
                 [(''apikey'', wide ''news-key''), (''country'', wide ''in''),
                  (''language'', wide ''en''), (''size'', wide ''10''), (''q'', [0xD800, 0x61])])
              three_results) no_json)
        [0xD800, 0x61]
       = Inl (Error ''Failed to fetch news: fetch failed'')
   \<and> getIndianNewsByTopic_string
        (example_runtime credentials
           (answers_only
              (GetQuery news_url
                 [(''apikey'', wide ''news-key''), (''country'', wide ''in''),
                  (''language'', wide ''en''), (''size'', wide ''10''), (''q'', [0xFFFD, 0x61])])
              three_results) no_json)
        [0xD800, 0x61]
       = Inr (replicate 3 sample_article)"
proof -
  let ?topic = "[0xD800, 0x61] :: jsstring"
  let ?sent = "[(''apikey'', wide ''news-key''), (''country'', wide ''in''),
      (''language'', wide ''en''), (''size'', wide ''10''), (''q'', [0xFFFD, 0x61 :: code_unit])]"
  let ?verbatim = "[(''apikey'', wide ''news-key''), (''country'', wide ''in''),
      (''language'', wide ''en''), (''size'', wide ''10''), (''q'', ?topic)]"
  have query: "news_query (example_runtime credentials network parse) ?topic = ?sent"
    for network parse
    by (simp add: news_query_def env_string_def example_runtime_def credentials_def trim16_def
        is_space16_def toUSVString_wide is_surrogate_def is_leading_def is_trailing_def)
  have differ: "?sent \<noteq> ?verbatim" by simp
  have net: "fetch (example_runtime credentials network parse) = network" for network parse
    by (simp add: example_runtime_def)
  have msg: "message_of rt (Error m) = m" for rt m by (simp add: message_of_def)
  have 1: "trim16 ?topic \<noteq> []" by (simp add: trim16_def is_space16_def)
  have 2: "[0xFFFD, 0x61] \<noteq> [0xD800, 0x61 :: code_unit]" by simp
  have 3: "getIndianNewsByTopic_string
      (example_runtime credentials (answers_only (GetQuery news_url ?verbatim) three_results)
         no_json) ?topic
      = Inl (Error ''Failed to fetch news: fetch failed'')"
    using differ
    by (simp add: getIndianNewsByTopic_string_def getIndianNewsByTopic_try_def query net
        answers_only_def msg)
  have "own_prop three_results ''results'' = Arr (replicate 3 sample_article)"
    by (simp add: three_results_def)
  then have 4: "getIndianNewsByTopic_string
      (example_runtime credentials (answers_only (GetQuery news_url ?sent) three_results)
         no_json) ?topic
      = Inr (replicate 3 sample_article)"
    by (intro news_not_truncated [where data = three_results
          and res = "\<lparr>status = 200, statusText = ''OK'', json = Inr three_results\<rparr>"])
      (simp_all add: query net answers_only_def reply_200_def ok_def)
  from query [of offline no_json] 1 2 3 4 show ?thesis by (intro conjI)
qed

text \<open>
  Claim C6, amended. When the topic is empty or consists of white space only, the query
  is the four fixed parameters and has no \<^verbatim>\<open>q\<close> parameter at all. Otherwise it is
  these four followed by exactly one \<^verbatim>\<open>q\<close> parameter, whose value is the topic (as
  it was given, not trimmed) with every surrogate that has no partner replaced by
  U+FFFD; for a topic without surrogates this value is the topic itself. This query is
  what the client sends: when the request \<open>GetQuery news_url (news_query rt topic)\<close>
  fails, the client fails with that failure's message; when it is answered with a
  successful reply whose \<^verbatim>\<open>results\<close> is an array, the client returns that array; and
  the result depends on the network through the answer to this one request only.
  The last part relates the client on a topic of the program text to the client on the
  same topic in code units.
\<close>

theorem news_query_sent:
  "((\<forall>c \<in> set topic. is_space16 c) \<longrightarrow>
      news_query rt topic
        = [(''apikey'', wide (env_string rt ''NEWSDATA_API_KEY'')), (''country'', wide ''in''),
           (''language'', wide ''en''), (''size'', wide ''10'')]
      \<and> ''q'' \<notin> fst ` set (news_query rt topic))
   \<and> (\<not> (\<forall>c \<in> set topic. is_space16 c) \<longrightarrow>
      news_query rt topic
        = [(''apikey'', wide (env_string rt ''NEWSDATA_API_KEY'')), (''country'', wide ''in''),
           (''language'', wide ''en''), (''size'', wide ''10''), (''q'', toUSVString topic)])
   \<and> ((\<forall>c \<in> set topic. \<not> is_surrogate c) \<longrightarrow> toUSVString topic = topic)
   \<and> (fetch rt (GetQuery news_url (news_query rt topic)) = Inl e \<longrightarrow>
        getIndianNewsByTopic_string rt topic
          = Inl (Error (''Failed to fetch news: '' @ message_of rt e)))
   \<and> (fetch rt (GetQuery news_url (news_query rt topic)) = Inr res \<and> ok res
        \<and> json res = Inr data \<and> own_prop data ''results'' = Arr articles \<longrightarrow>
        getIndianNewsByTopic_string rt topic = Inr articles)
   \<and> (\<forall>network.
        network (GetQuery news_url (news_query rt topic))
          = fetch rt (GetQuery news_url (news_query rt topic)) \<longrightarrow>
        getIndianNewsByTopic_string (rt\<lparr>fetch := network\<rparr>) topic
          = getIndianNewsByTopic_string rt topic)
   \<and> getIndianNewsByTopic rt (Str s) = getIndianNewsByTopic_string rt (wide s)"
proof (intro conjI impI allI)
  assume "\<forall>c \<in> set topic. is_space16 c"
  then have blank: "trim16 topic = []" by (simp add: trim16_empty_iff)
  then show "news_query rt topic
      = [(''apikey'', wide (env_string rt ''NEWSDATA_API_KEY'')), (''country'', wide ''in''),
         (''language'', wide ''en''), (''size'', wide ''10'')]"
    by (simp add: news_query_def toUSVString_wide)
  from blank show "''q'' \<notin> fst ` set (news_query rt topic)" by (simp add: news_query_def)
next
  assume "\<not> (\<forall>c \<in> set topic. is_space16 c)"
  then have "trim16 topic \<noteq> []" by (simp add: trim16_empty_iff)
  then show "news_query rt topic
      = [(''apikey'', wide (env_string rt ''NEWSDATA_API_KEY'')), (''country'', wide ''in''),
         (''language'', wide ''en''), (''size'', wide ''10''), (''q'', toUSVString topic)]"
    by (simp add: news_query_def toUSVString_wide)
next
  assume "\<forall>c \<in> set topic. \<not> is_surrogate c"
  then show "toUSVString topic = topic" by (rule toUSVString_unchanged)
next
  assume "fetch rt (GetQuery news_url (news_query rt topic)) = Inl e"
  then show "getIndianNewsByTopic_string rt topic
      = Inl (Error (''Failed to fetch news: '' @ message_of rt e))"
    by (simp add: getIndianNewsByTopic_string_def getIndianNewsByTopic_try_def)
next
  assume "fetch rt (GetQuery news_url (news_query rt topic)) = Inr res \<and> ok res
      \<and> json res = Inr data \<and> own_prop data ''results'' = Arr articles"
  then show "getIndianNewsByTopic_string rt topic = Inr articles"
    using news_not_truncated by blast
next
  fix network
  assume same: "network (GetQuery news_url (news_query rt topic))
    = fetch rt (GetQuery news_url (news_query rt topic))"
  have query: "news_query (rt\<lparr>fetch := network\<rparr>) topic = news_query rt topic"
    by (simp add: news_query_def env_string_def)
  have msg: "message_of (rt\<lparr>fetch := network\<rparr>) e = message_of rt e" for e
    by (simp add: message_of_def split: thrown.splits)
  have "getIndianNewsByTopic_try (rt\<lparr>fetch := network\<rparr>) (news_query rt topic)
      = getIndianNewsByTopic_try rt (news_query rt topic)"
    using same by (simp add: getIndianNewsByTopic_try_def)
  then show "getIndianNewsByTopic_string (rt\<lparr>fetch := network\<rparr>) topic
      = getIndianNewsByTopic_string rt topic"
    by (simp add: getIndianNewsByTopic_string_def query msg split: sum.splits)
next
  show "getIndianNewsByTopic rt (Str s) = getIndianNewsByTopic_string rt (wide s)"
    by (simp add: getIndianNewsByTopic_def)
qed


text \<open>
  Four runs. A topic of an ideographic space and a space, against a service that answers
  only the query of the four fixed parameters; a topic in Devanagari and the topic
  \<^verbatim>\<open>cricket\<close> with a space after it, each against a service that answers only the
  query that ends in this topic as \<^verbatim>\<open>q\<close>; and the latter topic against a service that
  answers only the query with the trimmed topic, which is not the one sent.
\<close>

theorem news_query_sent_witness:
  "getIndianNewsByTopic_string
      (example_runtime credentials
         (answers_only
            (GetQuery news_url
               [(''apikey'', wide ''news-key''), (''country'', wide ''in''),
                (''language'', wide ''en''), (''size'', wide ''10'')])
            three_results) no_json)
      [0x3000, 0x20]
     = Inr (replicate 3 sample_article)
   \<and> getIndianNewsByTopic_string
      (example_runtime credentials
         (answers_only
            (GetQuery news_url
               [(''apikey'', wide ''news-key''), (''country'', wide ''in''),
                (''language'', wide ''en''), (''size'', wide ''10''),
                (''q'', [0x0915, 0x094D, 0x0930, 0x093F, 0x0915, 0x0947, 0x091F])])
            three_results) no_json)
      [0x0915, 0x094D, 0x0930, 0x093F, 0x0915, 0x0947, 0x091F]
     = Inr (replicate 3 sample_article)
   \<and> getIndianNewsByTopic
      (example_runtime credentials
         (answers_only
            (GetQuery news_url
               [(''apikey'', wide ''news-key''), (''country'', wide ''in''),
                (''language'', wide ''en''), (''size'', wide ''10''),
                (''q'', wide ''cricket '')])
            three_results) no_json)
      (Str ''cricket '')
     = Inr (replicate 3 sample_article)
   \<and> getIndianNewsByTopic_string
      (example_runtime credentials
         (answers_only
            (GetQuery news_url
               [(''apikey'', wide ''news-key''), (''country'', wide ''in''),
                (''language'', wide ''en''), (''size'', wide ''10''),
                (''q'', wide ''cricket'')])
            three_results) no_json)
      (wide ''cricket '')
     = Inl (Error ''Failed to fetch news: fetch failed'')"
proof -
  let ?base = "[(''apikey'', wide ''news-key''), (''country'', wide ''in''),
      (''language'', wide ''en''), (''size'', wide ''10'')]"
  let ?hindi = "[0x0915, 0x094D, 0x0930, 0x093F, 0x0915, 0x0947, 0x091F] :: jsstring"
  let ?blank = "[0x3000, 0x20] :: jsstring"
  let ?reply = "\<lparr>status = 200, statusText = ''OK'', json = Inr three_results\<rparr>"
  have key: "env_string (example_runtime credentials network parse) ''NEWSDATA_API_KEY''
      = ''news-key''" for network parse
    by (simp add: env_string_def example_runtime_def credentials_def)
  have spaces: "\<forall>c \<in> set ?blank. is_space16 c"
    "\<not> (\<forall>c \<in> set ?hindi. is_space16 c)"
    "\<not> (\<forall>c \<in> set (wide ''cricket ''). is_space16 c)"
    by (simp_all add: is_space16_def wide_def)
  have plain: "\<forall>c \<in> set ?hindi. \<not> is_surrogate c"
    by (simp add: is_surrogate_def)
  have results: "own_prop three_results ''results'' = Arr (replicate 3 sample_article)"
    by (simp add: three_results_def)
  have net: "fetch (example_runtime credentials (answers_only r body) parse) r = reply_200 body"
    for r body parse
    by (simp add: example_runtime_def answers_only_def)
  have ok: "ok ?reply" by (simp add: ok_def)
  have differ: "wide ''cricket '' \<noteq> wide ''cricket''" by (simp add: wide_def)
  have parsed: "json ?reply = Inr three_results" by simp
  note reply = conjI [OF ok conjI [OF parsed results]]
  have 1: "getIndianNewsByTopic_string
      (example_runtime credentials (answers_only (GetQuery news_url ?base) three_results) no_json)
      ?blank = Inr (replicate 3 sample_article)"
  proof -
    let ?rt = "example_runtime credentials
        (answers_only (GetQuery news_url ?base) three_results) no_json"
    note sent = news_query_sent [where topic = ?blank and res = ?reply and data = three_results
        and articles = "replicate 3 sample_article" and e = NonError and s = "[]" and rt = ?rt]
    note sent [THEN conjunct1, THEN mp, OF spaces(1), THEN conjunct1]
    then have query: "news_query ?rt ?blank = ?base" by (simp only: key)
    have "fetch ?rt (GetQuery news_url (news_query ?rt ?blank)) = Inr ?reply"
      by (simp only: query net reply_200_def)
    note conjI [OF this reply]
    then show ?thesis
      by (rule sent [THEN conjunct2, THEN conjunct2, THEN conjunct2, THEN conjunct2,
            THEN conjunct1, THEN mp])
  qed
  have 2: "getIndianNewsByTopic_string
      (example_runtime credentials
         (answers_only (GetQuery news_url (?base @ [(''q'', ?hindi)])) three_results) no_json)
      ?hindi = Inr (replicate 3 sample_article)"
  proof -
    let ?rt = "example_runtime credentials
        (answers_only (GetQuery news_url (?base @ [(''q'', ?hindi)])) three_results) no_json"
    note sent = news_query_sent [where topic = ?hindi and res = ?reply and data = three_results
        and articles = "replicate 3 sample_article" and e = NonError and s = "[]" and rt = ?rt]
    note usv = sent [THEN conjunct2, THEN conjunct2, THEN conjunct1, THEN mp, OF plain]
    note sent [THEN conjunct2, THEN conjunct1, THEN mp, OF spaces(2)]
    then have query: "news_query ?rt ?hindi = ?base @ [(''q'', ?hindi)]"
      by (simp only: key usv append.simps)
    have "fetch ?rt (GetQuery news_url (news_query ?rt ?hindi)) = Inr ?reply"
      by (simp only: query net reply_200_def)
    note conjI [OF this reply]
    then show ?thesis
      by (rule sent [THEN conjunct2, THEN conjunct2, THEN conjunct2, THEN conjunct2,
            THEN conjunct1, THEN mp])
  qed
  have 3: "getIndianNewsByTopic
      (example_runtime credentials
         (answers_only (GetQuery news_url (?base @ [(''q'', wide ''cricket '')])) three_results)
         no_json)
      (Str ''cricket '') = Inr (replicate 3 sample_article)"
  proof -
    let ?rt = "example_runtime credentials
        (answers_only (GetQuery news_url (?base @ [(''q'', wide ''cricket '')])) three_results)
        no_json"
    note sent = news_query_sent [where topic = "wide ''cricket ''" and res = ?reply
        and data = three_results and articles = "replicate 3 sample_article" and e = NonError
        and s = "''cricket ''" and rt = ?rt]
    note sent [THEN conjunct2, THEN conjunct1, THEN mp, OF spaces(3)]
    then have query: "news_query ?rt (wide ''cricket '') = ?base @ [(''q'', wide ''cricket '')]"
      by (simp only: key toUSVString_wide append.simps)
    have "fetch ?rt (GetQuery news_url (news_query ?rt (wide ''cricket ''))) = Inr ?reply"
      by (simp only: query net reply_200_def)
    note conjI [OF this reply]
    then have "getIndianNewsByTopic_string ?rt (wide ''cricket '')
        = Inr (replicate 3 sample_article)"
      by (rule sent [THEN conjunct2, THEN conjunct2, THEN conjunct2, THEN conjunct2,
            THEN conjunct1, THEN mp])
    then show ?thesis
      by (simp only: sent [THEN conjunct2, THEN conjunct2, THEN conjunct2, THEN conjunct2,
            THEN conjunct2, THEN conjunct2])
  qed
  have 4: "getIndianNewsByTopic_string
      (example_runtime credentials
         (answers_only (GetQuery news_url (?base @ [(''q'', wide ''cricket'')])) three_results)
         no_json)
      (wide ''cricket '') = Inl (Error ''Failed to fetch news: fetch failed'')"
  proof -
    let ?rt = "example_runtime credentials
        (answers_only (GetQuery news_url (?base @ [(''q'', wide ''cricket'')])) three_results)
        no_json"
    note sent = news_query_sent [where topic = "wide ''cricket ''" and res = ?reply
        and data = three_results and articles = "replicate 3 sample_article"
        and e = "Error ''fetch failed''" and s = "[]" and rt = ?rt]
    note sent [THEN conjunct2, THEN conjunct1, THEN mp, OF spaces(3)]
    then have query: "news_query ?rt (wide ''cricket '') = ?base @ [(''q'', wide ''cricket '')]"
      by (simp only: key toUSVString_wide append.simps)
    have "fetch ?rt (GetQuery news_url (?base @ [(''q'', wide ''cricket '')]))
        = Inl (Error ''fetch failed'')"
      using differ by (simp add: example_runtime_def answers_only_def)
    then have "fetch ?rt (GetQuery news_url (news_query ?rt (wide ''cricket '')))
        = Inl (Error ''fetch failed'')"
      by (simp only: query)
    then have "getIndianNewsByTopic_string ?rt (wide ''cricket '')
        = Inl (Error (''Failed to fetch news: '' @ message_of ?rt (Error ''fetch failed'')))"
      by (rule sent [THEN conjunct2, THEN conjunct2, THEN conjunct2, THEN conjunct1, THEN mp])
    then show ?thesis by (simp add: message_of_def)
  qed
  from 1 2 3 4 show ?thesis by (simp only: append.simps simp_thms)
qed

text \<open>
  Claim C1 says that the client never returns more than ten articles. The query asks
  the service for \<^verbatim>\<open>size=10\<close>, but the reply is handed on uncut: when the service
  answers with eleven results, the client returns all eleven.
\<close>

theorem news_eleven:
  "getIndianNewsByTopic (example_runtime credentials (news_only eleven_results) no_json)
     (Str ''cricket'') = Inr (replicate 11 sample_article)
   \<and> length (replicate 11 sample_article) = 11"
  by (simp add: getIndianNewsByTopic_def getIndianNewsByTopic_string_def
      getIndianNewsByTopic_try_def example_runtime_def news_only_def reply_200_def ok_def
      get_prop_def nullish_def eleven_results_def)

text \<open>
  Claim C7 says that a reply with status 200 whose body has no \<^verbatim>\<open>results\<close> field
  yields the empty list and no error. The body \<^verbatim>\<open>null\<close> has no such field, yet
  reading \<^verbatim>\<open>data.results\<close> of it throws inside the \<^verbatim>\<open>try\<close> block, and the client
  fails with the engine's message behind its own prefix.
\<close>

theorem news_null_body:
  "getIndianNewsByTopic (example_runtime credentials (news_only Null) no_json) (Str [])
     = Inl (Error (''Failed to fetch news: Cannot read properties of null (reading ''
                   @ [CHR 0x27] @ ''results'' @ [CHR 0x27] @ '')''))"
  by (simp add: getIndianNewsByTopic_def getIndianNewsByTopic_string_def
      getIndianNewsByTopic_try_def example_runtime_def news_only_def reply_200_def ok_def
      get_prop_def nullish_def read_fault_def message_of_def example_fault_message_def
      quoted_def)

section \<open>Template Catalog Client: the first hundred\<close>

lemma map_templates_Inr:
  "map_templates ms = Inr ts \<longleftrightarrow>
     (\<forall>m \<in> set ms. \<not> nullish m)
     \<and> ts = map (\<lambda>m. \<lparr>template_id = own_prop m ''id'', template_name = own_prop m ''name''\<rparr>) ms"
proof (induction ms arbitrary: ts)
  case Nil
  then show ?case by auto
next
  case (Cons m ms)
  show ?case
  proof (cases "nullish m")
    case True
    then show ?thesis by (auto simp: nullish_def)
  next
    case False
    then show ?thesis using Cons.IH by (cases "map_templates ms") (auto simp: nullish_def)
  qed
qed

lemma slice_and_map_Inr:
  "slice_and_map memes = Inr ts \<Longrightarrow> \<exists>ms. memes = Arr ms \<and> map_templates (take 100 ms) = Inr ts"
  by (cases memes) (simp_all add: slice_and_map_def)

lemma fetchImgflipTemplates_try_Inr:
  assumes "fetchImgflipTemplates_try rt = Inr ts"
  shows "\<exists>res body ms. fetch rt (Get templates_url) = Inr res \<and> ok res \<and> json res = Inr body
           \<and> truthy (own_prop body ''success'')
           \<and> own_prop (own_prop body ''data'') ''memes'' = Arr ms
           \<and> map_templates (take 100 ms) = Inr ts"
proof -
  from assms obtain res where res: "fetch rt (Get templates_url) = Inr res"
    by (cases "fetch rt (Get templates_url)") (simp_all add: fetchImgflipTemplates_try_def)
  from assms res have ok: "ok res"
    by (simp add: fetchImgflipTemplates_try_def split: if_splits)
  from assms res ok obtain body where body: "json res = Inr body"
    by (cases "json res") (simp_all add: fetchImgflipTemplates_try_def)
  from assms res ok body have nn: "\<not> nullish body"
    by (simp add: fetchImgflipTemplates_try_def get_prop_def split: if_splits)
  from assms res ok body nn have success: "truthy (own_prop body ''success'')"
    by (simp add: fetchImgflipTemplates_try_def get_prop_def split: if_splits)
  from assms res ok body nn success have nd: "\<not> nullish (own_prop body ''data'')"
    by (simp add: fetchImgflipTemplates_try_def get_prop_def split: if_splits)
  from assms res ok body nn success nd
  have "slice_and_map (own_prop (own_prop body ''data'') ''memes'') = Inr ts"
    by (simp add: fetchImgflipTemplates_try_def get_prop_def)
  then obtain ms where "own_prop (own_prop body ''data'') ''memes'' = Arr ms"
    and "map_templates (take 100 ms) = Inr ts"
    using slice_and_map_Inr by blast
  with res ok body success show ?thesis by blast
qed

text \<open>
  Claim C8. Whenever the client returns a list, the catalog request was answered with a
  success status and a truthy \<^verbatim>\<open>success\<close> flag, \<^verbatim>\<open>data.memes\<close> was an array, and
  the list is that array cut to its first 100 entries, in the same order, each entry
  reduced to its \<^verbatim>\<open>id\<close> and \<^verbatim>\<open>name\<close> (undefined where the entry has none); so it has at
  most 100 entries. Conversely, on such a reply whose first 100 entries are neither null
  nor undefined the client does return that list.
\<close>

theorem fetchImgflipTemplates_first_100:
  "(fetchImgflipTemplates rt = Inr ts \<longrightarrow>
      (\<exists>res body ms.
         fetch rt (Get templates_url) = Inr res \<and> ok res \<and> json res = Inr body
         \<and> truthy (own_prop body ''success'')
         \<and> own_prop (own_prop body ''data'') ''memes'' = Arr ms
         \<and> ts = map (\<lambda>m. \<lparr>template_id = own_prop m ''id'', template_name = own_prop m ''name''\<rparr>)
                  (take 100 ms)
         \<and> length ts \<le> 100))
   \<and> (fetch rt (Get templates_url) = Inr res \<and> ok res \<and> json res = Inr body
        \<and> truthy (own_prop body ''success'')
        \<and> own_prop (own_prop body ''data'') ''memes'' = Arr ms
        \<and> (\<forall>m \<in> set (take 100 ms). \<not> nullish m)
      \<longrightarrow> fetchImgflipTemplates rt =
            Inr (map (\<lambda>m. \<lparr>template_id = own_prop m ''id'', template_name = own_prop m ''name''\<rparr>)
                   (take 100 ms)))"
proof (intro conjI impI)
  assume "fetchImgflipTemplates rt = Inr ts"
  then have "fetchImgflipTemplates_try rt = Inr ts"
    by (simp add: fetchImgflipTemplates_def split: sum.splits)
  then obtain res body ms where *: "fetch rt (Get templates_url) = Inr res" "ok res"
    "json res = Inr body" "truthy (own_prop body ''success'')"
    "own_prop (own_prop body ''data'') ''memes'' = Arr ms"
    and mapped: "map_templates (take 100 ms) = Inr ts"
    using fetchImgflipTemplates_try_Inr by blast
  from mapped have ts: "ts = map (\<lambda>m. \<lparr>template_id = own_prop m ''id'',
      template_name = own_prop m ''name''\<rparr>) (take 100 ms)"
    by (simp add: map_templates_Inr)
  then have "length ts \<le> 100" by simp
  with * ts show "\<exists>res body ms.
         fetch rt (Get templates_url) = Inr res \<and> ok res \<and> json res = Inr body
         \<and> truthy (own_prop body ''success'')
         \<and> own_prop (own_prop body ''data'') ''memes'' = Arr ms
         \<and> ts = map (\<lambda>m. \<lparr>template_id = own_prop m ''id'', template_name = own_prop m ''name''\<rparr>)
                  (take 100 ms)
         \<and> length ts \<le> 100" by blast
next
  assume a: "fetch rt (Get templates_url) = Inr res \<and> ok res \<and> json res = Inr body
        \<and> truthy (own_prop body ''success'')
        \<and> own_prop (own_prop body ''data'') ''memes'' = Arr ms
        \<and> (\<forall>m \<in> set (take 100 ms). \<not> nullish m)"
  then have memes: "own_prop (own_prop body ''data'') ''memes'' = Arr ms" by simp
  then have nd: "\<not> nullish (own_prop body ''data'')" by (auto simp: nullish_def)
  then have nb: "\<not> nullish body" by (auto simp: nullish_def)
  from a have "map_templates (take 100 ms) =
      Inr (map (\<lambda>m. \<lparr>template_id = own_prop m ''id'', template_name = own_prop m ''name''\<rparr>)
             (take 100 ms))"
    by (simp add: map_templates_Inr)
  with a nd nb memes have "fetchImgflipTemplates_try rt =
      Inr (map (\<lambda>m. \<lparr>template_id = own_prop m ''id'', template_name = own_prop m ''name''\<rparr>)
             (take 100 ms))"
    by (simp add: fetchImgflipTemplates_try_def get_prop_def slice_and_map_def)
  then show "fetchImgflipTemplates rt =
            Inr (map (\<lambda>m. \<lparr>template_id = own_prop m ''id'', template_name = own_prop m ''name''\<rparr>)
                   (take 100 ms))"
    by (simp add: fetchImgflipTemplates_def)
qed

text \<open>
  A catalog of 152 entries gives the first 100, in order, without their \<^verbatim>\<open>url\<close> and
  \<^verbatim>\<open>box_count\<close>.
\<close>

theorem fetchImgflipTemplates_witness:
  "fetchImgflipTemplates (example_runtime credentials (templates_only sample_catalog) no_json)
     = Inr (\<lparr>template_id = Str ''181913649'', template_name = Str ''Drake Hotline Bling''\<rparr>
            # \<lparr>template_id = Str ''87743020'', template_name = Str ''Two Buttons''\<rparr>
            # replicate 98 \<lparr>template_id = Str ''112126428'',
                 template_name = Str ''Distracted Boyfriend''\<rparr>)
   \<and> length (\<lparr>template_id = Str ''181913649'', template_name = Str ''Drake Hotline Bling''\<rparr>
            # \<lparr>template_id = Str ''87743020'', template_name = Str ''Two Buttons''\<rparr>
            # replicate 98 \<lparr>template_id = Str ''112126428'',
                 template_name = Str ''Distracted Boyfriend''\<rparr>) = 100"
  using fetchImgflipTemplates_first_100 [of
      "example_runtime credentials (templates_only sample_catalog) no_json"
      "\<lparr>template_id = Str ''181913649'', template_name = Str ''Drake Hotline Bling''\<rparr>
            # \<lparr>template_id = Str ''87743020'', template_name = Str ''Two Buttons''\<rparr>
            # replicate 98 \<lparr>template_id = Str ''112126428'',
                 template_name = Str ''Distracted Boyfriend''\<rparr>"
      "\<lparr>status = 200, statusText = ''OK'', json = Inr sample_catalog\<rparr>" sample_catalog
      "sample_meme ''181913649'' ''Drake Hotline Bling''
                  # sample_meme ''87743020'' ''Two Buttons''
                  # replicate 150 (sample_meme ''112126428'' ''Distracted Boyfriend'')"]
  by (simp add: example_runtime_def templates_only_def reply_200_def ok_def sample_catalog_def
      sample_meme_def nullish_def)

section \<open>Caption Parser: malformed and well-formed captions\<close>

text \<open>When the \<^verbatim>\<open>try\<close> block of the parser yields a caption.\<close>

lemma parseMemeCaption_try_Some:
  "parseMemeCaption_try rt caption = Inr (Some c) \<longleftrightarrow>
     (\<exists>s parsed. caption = Str s \<and> JSON_parse rt (cleaned s) = Inr parsed
        \<and> truthy (own_prop parsed ''image'') \<and> truthy (own_prop parsed ''topText'')
        \<and> truthy (own_prop parsed ''bottomText'')
        \<and> ToNumber rt (own_prop parsed ''image'') = Inr (imageId c) \<and> imageId c \<noteq> NaN
        \<and> ToString rt (own_prop parsed ''topText'') = Inr (topText c)
        \<and> ToString rt (own_prop parsed ''bottomText'') = Inr (bottomText c))"
proof (cases caption)
  case (Str s)
  show ?thesis
  proof (cases "JSON_parse rt (cleaned s)")
    case (Inl m)
    with Str show ?thesis by (simp add: parseMemeCaption_try_def)
  next
    case (Inr parsed)
    show ?thesis
    proof (cases "nullish parsed")
      case True
      then have "\<not> truthy (own_prop parsed ''image'')" by (auto simp: nullish_def)
      with Str Inr True show ?thesis
        by (simp add: parseMemeCaption_try_def get_prop_def)
    next
      case False
      with Str Inr show ?thesis
        by (auto simp: parseMemeCaption_try_def get_prop_def split: sum.splits)
    qed
  qed
qed (simp_all add: parseMemeCaption_try_def)

text \<open>
  Claim C2. The parser is total and throws nothing: its result is a caption or null
  (\<open>None\<close>), whatever the input and whatever the engine's built-ins do, because the
  \<^verbatim>\<open>catch\<close> turns every throw of the \<^verbatim>\<open>try\<close> block into null. In particular the
  result is null when \<^verbatim>\<open>JSON.parse\<close> rejects the cleaned text; when the parsed value
  lacks \<^verbatim>\<open>image\<close>, \<^verbatim>\<open>topText\<close> or \<^verbatim>\<open>bottomText\<close> or holds a falsy value there (a
  parsed null or a primitive has no fields); and when \<^verbatim>\<open>Number(image)\<close> is NaN or cannot
  be computed. A caption comes back exactly when the input is a string whose cleaned
  text parses, the three fields are truthy, \<^verbatim>\<open>image\<close> converts to a number other than
  NaN and both texts convert to strings; the caption holds these three conversions.
\<close>

theorem parseMemeCaption_null_on_bad_input:
  "(JSON_parse rt (cleaned s) = Inl m \<longrightarrow> parseMemeCaption rt (Str s) = None)
   \<and> (JSON_parse rt (cleaned s) = Inr parsed
        \<and> (\<not> truthy (opt_prop parsed ''image'') \<or> \<not> truthy (opt_prop parsed ''topText'')
             \<or> \<not> truthy (opt_prop parsed ''bottomText''))
      \<longrightarrow> parseMemeCaption rt (Str s) = None)
   \<and> (JSON_parse rt (cleaned s) = Inr parsed
        \<and> (ToNumber rt (opt_prop parsed ''image'') = Inr NaN
             \<or> (\<exists>e. ToNumber rt (opt_prop parsed ''image'') = Inl e))
      \<longrightarrow> parseMemeCaption rt (Str s) = None)
   \<and> (parseMemeCaption rt caption = Some c \<longleftrightarrow>
        (\<exists>s parsed. caption = Str s \<and> JSON_parse rt (cleaned s) = Inr parsed
           \<and> truthy (own_prop parsed ''image'') \<and> truthy (own_prop parsed ''topText'')
           \<and> truthy (own_prop parsed ''bottomText'')
           \<and> ToNumber rt (own_prop parsed ''image'') = Inr (imageId c) \<and> imageId c \<noteq> NaN
           \<and> ToString rt (own_prop parsed ''topText'') = Inr (topText c)
           \<and> ToString rt (own_prop parsed ''bottomText'') = Inr (bottomText c)))"
proof -
  have some: "parseMemeCaption rt v = Some d \<longleftrightarrow> parseMemeCaption_try rt v = Inr (Some d)" for v d
    by (simp add: parseMemeCaption_def split: sum.splits)
  have none: "parseMemeCaption rt v = None" if "\<And>d. parseMemeCaption_try rt v \<noteq> Inr (Some d)" for v
  proof (cases "parseMemeCaption rt v")
    case None
    then show ?thesis .
  next
    case (Some d)
    with some that show ?thesis by blast
  qed
  have opt: "opt_prop v k = own_prop v k" for v k
    by (auto simp: opt_prop_def nullish_def)
  have 1: "parseMemeCaption rt (Str s) = None" if "JSON_parse rt (cleaned s) = Inl m"
    using that by (intro none) (simp add: parseMemeCaption_try_Some)
  have 2: "parseMemeCaption rt (Str s) = None"
    if "JSON_parse rt (cleaned s) = Inr parsed"
      and "\<not> truthy (opt_prop parsed ''image'') \<or> \<not> truthy (opt_prop parsed ''topText'')
             \<or> \<not> truthy (opt_prop parsed ''bottomText'')"
    using that by (intro none) (auto simp: parseMemeCaption_try_Some opt)
  have 3: "parseMemeCaption rt (Str s) = None"
    if "JSON_parse rt (cleaned s) = Inr parsed"
      and "ToNumber rt (opt_prop parsed ''image'') = Inr NaN
             \<or> (\<exists>e. ToNumber rt (opt_prop parsed ''image'') = Inl e)"
    using that by (intro none) (auto simp: parseMemeCaption_try_Some opt)
  from 1 2 3 show ?thesis
    unfolding some parseMemeCaption_try_Some by blast
qed

text \<open>
  Prose without JSON, a caption without \<^verbatim>\<open>image\<close> and one whose \<^verbatim>\<open>image\<close> is
  \<^verbatim>\<open>"abc"\<close> give null; one whose \<^verbatim>\<open>image\<close> is the string \<^verbatim>\<open>"87"\<close> gives a caption
  with the number 87.
\<close>

theorem parseMemeCaption_witness:
  \<open>parseMemeCaption (example_runtime credentials offline sample_parse)
       (Str ''Sure! Here is a funny caption for you.'') = None
   \<and> parseMemeCaption (example_runtime credentials offline sample_parse)
       (Str ''{"topText": "A", "bottomText": "B"}'') = None
   \<and> parseMemeCaption (example_runtime credentials offline sample_parse)
       (Str ''{"image": "abc", "topText": "A", "bottomText": "B"}'') = None
   \<and> parseMemeCaption (example_runtime credentials offline sample_parse)
       (Str ''{"image": "87", "topText": "A", "bottomText": "B"}'')
       = Some \<lparr>imageId = Finite 87, topText = ''A'', bottomText = ''B''\<rparr>\<close>
proof -
  let ?rt = "example_runtime credentials offline sample_parse"
  have clean:
    \<open>cleaned ''Sure! Here is a funny caption for you.'' = ''Sure! Here is a funny caption for you.''\<close>
    \<open>cleaned ''{"topText": "A", "bottomText": "B"}'' = ''{"topText": "A", "bottomText": "B"}''\<close>
    \<open>cleaned ''{"image": "abc", "topText": "A", "bottomText": "B"}''
       = ''{"image": "abc", "topText": "A", "bottomText": "B"}''\<close>
    \<open>cleaned ''{"image": "87", "topText": "A", "bottomText": "B"}''
       = ''{"image": "87", "topText": "A", "bottomText": "B"}''\<close>
    by (simp_all add: cleaned_def trim_def is_space_def)
  have parse:
    \<open>JSON_parse ?rt ''Sure! Here is a funny caption for you.'' = Inl ''Unexpected token''\<close>
    \<open>JSON_parse ?rt ''{"topText": "A", "bottomText": "B"}''
       = Inr (Obj [(''topText'', Str ''A''), (''bottomText'', Str ''B'')])\<close>
    \<open>JSON_parse ?rt ''{"image": "abc", "topText": "A", "bottomText": "B"}''
       = Inr (Obj [(''image'', Str ''abc''), (''topText'', Str ''A''), (''bottomText'', Str ''B'')])\<close>
    \<open>JSON_parse ?rt ''{"image": "87", "topText": "A", "bottomText": "B"}''
       = Inr (Obj [(''image'', Str ''87''), (''topText'', Str ''A''), (''bottomText'', Str ''B'')])\<close>
    by (simp_all add: example_runtime_def sample_parse_def caption_text_def)
  have number:
    "ToNumber ?rt (Str ''abc'') = Inr NaN" "ToNumber ?rt (Str ''87'') = Inr (Finite 87)"
    by (simp_all add: ToNumber_def example_runtime_def index_of_key_def is_digit_def
        nat_of_digits_def)
  show ?thesis
    using
      parseMemeCaption_null_on_bad_input [of ?rt "''Sure! Here is a funny caption for you.''"
        "''Unexpected token''" Null Null "\<lparr>imageId = NaN, topText = [], bottomText = []\<rparr>"]
      parseMemeCaption_null_on_bad_input [of ?rt \<open>''{"topText": "A", "bottomText": "B"}''\<close>
        "[]" "Obj [(''topText'', Str ''A''), (''bottomText'', Str ''B'')]" Null
        "\<lparr>imageId = NaN, topText = [], bottomText = []\<rparr>"]
      parseMemeCaption_null_on_bad_input [of ?rt
        \<open>''{"image": "abc", "topText": "A", "bottomText": "B"}''\<close> "[]"
        "Obj [(''image'', Str ''abc''), (''topText'', Str ''A''), (''bottomText'', Str ''B'')]" Null
        "\<lparr>imageId = NaN, topText = [], bottomText = []\<rparr>"]
      parseMemeCaption_null_on_bad_input [of ?rt "[]" "[]" Null
        \<open>Str ''{"image": "87", "topText": "A", "bottomText": "B"}''\<close>
        "\<lparr>imageId = Finite 87, topText = ''A'', bottomText = ''B''\<rparr>"]
    by (simp add: clean parse number opt_prop_def nullish_def)
qed

subsection \<open>Code fences\<close>

text \<open>
  Both patterns begin with a backquote, so \<open>remove_all\<close> copies a stretch without
  backquotes, drops a fence it meets, and keeps a plain fence while it looks for
  \<^verbatim>\<open>```json\<close>.
\<close>

lemma remove_all_skips:
  assumes "CHR 0x60 \<notin> set a" and "hd pat = CHR 0x60"
  shows "remove_all pat (a @ s) = a @ remove_all pat s"
  using assms(1)
proof (induction a)
  case Nil
  then show ?case by simp
next
  case (Cons c a)
  then have "c \<noteq> hd pat" using assms(2) by auto
  then have "\<not> (pat \<noteq> [] \<and> prefix pat (c # a @ s))"
    by (cases pat) auto
  with Cons show ?case by auto
qed

lemma remove_all_untouched:
  assumes "CHR 0x60 \<notin> set a" and "hd pat = CHR 0x60"
  shows "remove_all pat a = a"
  using remove_all_skips [OF assms, of "[]"] by simp

lemma remove_json_fence: "remove_all ''```json'' (''```json'' @ s) = remove_all ''```json'' s"
  by simp

lemma remove_fence: "remove_all ''```'' (''```'' @ s) = remove_all ''```'' s"
  by simp

lemma keep_plain_fence:
  assumes "s = [] \<or> (hd s \<noteq> CHR 0x60 \<and> hd s \<noteq> CHR ''j'')"
  shows "remove_all ''```json'' (''```'' @ s) = ''```'' @ remove_all ''```json'' s"
  using assms by (cases s) auto

lemma space_not_tick: "is_space c \<Longrightarrow> c \<noteq> CHR 0x60 \<and> c \<noteq> CHR ''j''"
  by (auto simp: is_space_def)

lemma trim_padded:
  assumes "\<forall>c \<in> set a. is_space c" and "\<forall>c \<in> set b. is_space c"
    and "j \<noteq> []" and "\<not> is_space (hd j)" and "\<not> is_space (last j)"
  shows "trim (a @ j @ b) = j"
proof -
  have "dropWhile is_space (a @ j @ b) = dropWhile is_space (j @ b)"
    using assms(1) by (intro dropWhile_append2) auto
  also from assms(3,4) have "\<dots> = j @ b" by (cases j) simp_all
  finally have front: "dropWhile is_space (a @ j @ b) = j @ b" .
  have "dropWhile is_space (rev b @ rev j) = dropWhile is_space (rev j)"
    using assms(2) by (intro dropWhile_append2) auto
  also from assms(3,5) have "\<dots> = rev j" by (cases j rule: rev_cases) simp_all
  finally have "dropWhile is_space (rev (j @ b)) = rev j" by simp
  with front show ?thesis by (simp add: trim_def)
qed

lemma cleaned_fenced:
  assumes w: "\<forall>c \<in> set w1. is_space c" "\<forall>c \<in> set w2. is_space c"
      "\<forall>c \<in> set w3. is_space c" "\<forall>c \<in> set w4. is_space c"
    and fences: "opening \<in> {[], ''```'', ''```json''}" "closing \<in> {[], ''```''}"
    and j: "CHR 0x60 \<notin> set j" "j \<noteq> []" "\<not> is_space (hd j)" "\<not> is_space (last j)"
      "hd j \<noteq> CHR ''j''"
  shows "cleaned (w1 @ opening @ w2 @ j @ w3 @ closing @ w4) = j"
proof -
  let ?m = "w2 @ j @ w3"
  have no_tick: "CHR 0x60 \<notin> set x" if "\<forall>c \<in> set x. is_space c" for x
    using that space_not_tick by blast
  from w have ticks: "CHR 0x60 \<notin> set w1" "CHR 0x60 \<notin> set w4" "CHR 0x60 \<notin> set ?m"
    using j(1) by (simp_all add: no_tick)
  have hd_m: "hd (?m @ t) \<noteq> CHR 0x60 \<and> hd (?m @ t) \<noteq> CHR ''j''" for t
  proof (cases w2)
    case Nil
    with j show ?thesis by (cases j) (auto simp: is_space_def)
  next
    case (Cons c cs)
    with w(2) show ?thesis using space_not_tick by auto
  qed
  have plain_w4: "w4 = [] \<or> (hd w4 \<noteq> CHR 0x60 \<and> hd w4 \<noteq> CHR ''j'')"
    using w(4) space_not_tick by (cases w4) auto
  have tail1: "remove_all ''```json'' (closing @ w4) = closing @ w4"
  proof (cases "closing = []")
    case True
    with ticks(2) show ?thesis by (simp add: remove_all_untouched)
  next
    case False
    with fences(2) have c: "closing = ''```''" by simp
    have "remove_all ''```json'' (''```'' @ w4) = ''```'' @ remove_all ''```json'' w4"
      using plain_w4 by (rule keep_plain_fence)
    with c ticks(2) show ?thesis by (simp add: remove_all_untouched)
  qed
  have mid1: "remove_all ''```json'' (?m @ closing @ w4) = ?m @ closing @ w4"
    using remove_all_skips [OF ticks(3), of "''```json''" "closing @ w4"] tail1 by simp
  have pass1: "\<exists>o'. o' \<in> {[], ''```''}
      \<and> remove_all ''```json'' (w1 @ opening @ ?m @ closing @ w4) = w1 @ o' @ ?m @ closing @ w4"
  proof -
    have "remove_all ''```json'' (opening @ ?m @ closing @ w4)
        = (if opening = ''```'' then ''```'' else []) @ ?m @ closing @ w4"
    proof (cases "opening = ''```''")
      case True
      have "remove_all ''```json'' (''```'' @ (?m @ closing @ w4))
          = ''```'' @ remove_all ''```json'' (?m @ closing @ w4)"
        using hd_m [of "closing @ w4"] by (intro keep_plain_fence) simp
      with True mid1 show ?thesis by simp
    next
      case False
      with fences(1) consider "opening = []" | "opening = ''```json''" by auto
      then show ?thesis
      proof cases
        case 1
        with mid1 show ?thesis by simp
      next
        case 2
        have "remove_all ''```json'' (''```json'' @ (?m @ closing @ w4))
            = remove_all ''```json'' (?m @ closing @ w4)"
          by (rule remove_json_fence)
        with 2 mid1 show ?thesis by simp
      qed
    qed
    then have "remove_all ''```json'' (w1 @ opening @ ?m @ closing @ w4)
        = w1 @ (if opening = ''```'' then ''```'' else []) @ ?m @ closing @ w4"
      using remove_all_skips [OF ticks(1), of "''```json''" "opening @ ?m @ closing @ w4"]
      by simp
    then show ?thesis by (intro exI [of _ "if opening = ''```'' then ''```'' else []"]) simp
  qed
  then obtain o' where o': "o' \<in> {[], ''```''}"
    and p1: "remove_all ''```json'' (w1 @ opening @ ?m @ closing @ w4) = w1 @ o' @ ?m @ closing @ w4"
    by blast
  have tail2: "remove_all ''```'' (closing @ w4) = w4"
  proof (cases "closing = []")
    case True
    with ticks(2) show ?thesis by (simp add: remove_all_untouched)
  next
    case False
    with fences(2) have c: "closing = ''```''" by simp
    have "remove_all ''```'' (''```'' @ w4) = remove_all ''```'' w4" by (rule remove_fence)
    with c ticks(2) show ?thesis by (simp add: remove_all_untouched)
  qed
  have mid2: "remove_all ''```'' (?m @ closing @ w4) = ?m @ w4"
    using remove_all_skips [OF ticks(3), of "''```''" "closing @ w4"] tail2 by simp
  have open2: "remove_all ''```'' (o' @ ?m @ closing @ w4) = ?m @ w4"
  proof (cases "o' = []")
    case True
    with mid2 show ?thesis by simp
  next
    case False
    with o' have c: "o' = ''```''" by simp
    have "remove_all ''```'' (''```'' @ (?m @ closing @ w4)) = remove_all ''```'' (?m @ closing @ w4)"
      by (rule remove_fence)
    with c mid2 show ?thesis by simp
  qed
  have p2: "remove_all ''```'' (w1 @ o' @ ?m @ closing @ w4) = w1 @ ?m @ w4"
    using remove_all_skips [OF ticks(1), of "''```''" "o' @ ?m @ closing @ w4"] open2 by simp
  have "trim ((w1 @ w2) @ j @ (w3 @ w4)) = j"
    using w j by (intro trim_padded) auto
  then have "trim (w1 @ ?m @ w4) = j" by simp
  with p1 p2 show ?thesis
    by (simp add: cleaned_def)
qed

text \<open>
  Claim C5. Let the raw text be the JSON object of the specification
  (\<^verbatim>\<open>{"image": 101, "topText": "A", "bottomText": "B"}\<close>), alone or wrapped in code
  fences: an opening \<^verbatim>\<open>```json\<close> or \<^verbatim>\<open>```\<close> or none, a closing \<^verbatim>\<open>```\<close> or none, and
  any white space before, between and after. Then the text handed to \<^verbatim>\<open>JSON.parse\<close> is
  the object's text exactly, without fences and surrounding white space; and when
  \<^verbatim>\<open>JSON.parse\<close> maps that text to an object whose \<^verbatim>\<open>image\<close> is 101, \<^verbatim>\<open>topText\<close> is
  \<^verbatim>\<open>"A"\<close> and \<^verbatim>\<open>bottomText\<close> is \<^verbatim>\<open>"B"\<close>, the parser yields the caption (101, A, B).
\<close>

theorem parseMemeCaption_fenced_caption:
  assumes \<open>JSON_parse rt ''{"image": 101, "topText": "A", "bottomText": "B"}'' = Inr parsed\<close>
    and "own_prop parsed ''image'' = Num (Finite 101)"
    and "own_prop parsed ''topText'' = Str ''A''"
    and "own_prop parsed ''bottomText'' = Str ''B''"
    and "\<forall>c \<in> set w1. is_space c" and "\<forall>c \<in> set w2. is_space c"
    and "\<forall>c \<in> set w3. is_space c" and "\<forall>c \<in> set w4. is_space c"
    and "opening \<in> {[], ''```'', ''```json''}" and "closing \<in> {[], ''```''}"
  shows \<open>cleaned (w1 @ opening @ w2 @ ''{"image": 101, "topText": "A", "bottomText": "B"}''
                   @ w3 @ closing @ w4)
           = ''{"image": 101, "topText": "A", "bottomText": "B"}''
         \<and> parseMemeCaption rt
             (Str (w1 @ opening @ w2 @ ''{"image": 101, "topText": "A", "bottomText": "B"}''
                   @ w3 @ closing @ w4))
           = Some \<lparr>imageId = Finite 101, topText = ''A'', bottomText = ''B''\<rparr>\<close>
proof -
  let ?j = \<open>''{"image": 101, "topText": "A", "bottomText": "B"}''\<close>
  have "CHR 0x60 \<notin> set ?j" "?j \<noteq> []" "\<not> is_space (hd ?j)" "\<not> is_space (last ?j)"
    "hd ?j \<noteq> CHR ''j''"
    by (simp_all add: is_space_def)
  with assms(5-10) have clean: "cleaned (w1 @ opening @ w2 @ ?j @ w3 @ closing @ w4) = ?j"
    by (rule cleaned_fenced)
  from assms(2) have "\<not> nullish parsed" by (auto simp: nullish_def)
  with assms(1-4) clean
  have "parseMemeCaption_try rt (Str (w1 @ opening @ w2 @ ?j @ w3 @ closing @ w4))
      = Inr (Some \<lparr>imageId = Finite 101, topText = ''A'', bottomText = ''B''\<rparr>)"
    by (simp add: parseMemeCaption_try_def get_prop_def ToNumber_def)
  then have "parseMemeCaption rt (Str (w1 @ opening @ w2 @ ?j @ w3 @ closing @ w4))
      = Some \<lparr>imageId = Finite 101, topText = ''A'', bottomText = ''B''\<rparr>"
    by (simp add: parseMemeCaption_def)
  with clean show ?thesis by simp
qed

text \<open>
  The object between \<^verbatim>\<open>```json\<close> and \<^verbatim>\<open>```\<close>, each on a line of its own, and the
  object alone.
\<close>

theorem parseMemeCaption_fenced_witness:
  \<open>parseMemeCaption (example_runtime credentials offline sample_parse)
      (Str (''```json'' @ [CHR 0x0A] @ ''{"image": 101, "topText": "A", "bottomText": "B"}''
            @ [CHR 0x0A] @ ''```'' @ [CHR 0x0A]))
     = Some \<lparr>imageId = Finite 101, topText = ''A'', bottomText = ''B''\<rparr>
   \<and> parseMemeCaption (example_runtime credentials offline sample_parse)
      (Str ''{"image": 101, "topText": "A", "bottomText": "B"}'')
     = Some \<lparr>imageId = Finite 101, topText = ''A'', bottomText = ''B''\<rparr>\<close>
proof -
  let ?rt = "example_runtime credentials offline sample_parse"
  have parse: \<open>JSON_parse ?rt ''{"image": 101, "topText": "A", "bottomText": "B"}''
      = Inr caption_object\<close>
    by (simp add: example_runtime_def sample_parse_def caption_text_def)
  have fields: "own_prop caption_object ''image'' = Num (Finite 101)"
    "own_prop caption_object ''topText'' = Str ''A''"
    "own_prop caption_object ''bottomText'' = Str ''B''"
    by (simp_all add: caption_object_def)
  have spaces: "\<forall>c \<in> set []. is_space c" "\<forall>c \<in> set [CHR 0x0A]. is_space c"
    by (simp_all add: is_space_def)
  have fences: "''```json'' \<in> {[], ''```'', ''```json''}" "''```'' \<in> {[], ''```''}"
    "[] \<in> {[], ''```'', ''```json''}" "[] \<in> {[], ''```''}"
    by simp_all
  show ?thesis
    using
      parseMemeCaption_fenced_caption [OF parse fields spaces(1) spaces(2) spaces(2) spaces(2)
        fences(1) fences(2)]
      parseMemeCaption_fenced_caption [OF parse fields spaces(1) spaces(1) spaces(1) spaces(1)
        fences(3) fences(4)]
    by simp
qed

section \<open>Workflow Orchestrator: failures\<close>


lemma element_at_out_of_range:
  assumes "\<forall>i < length xs. n \<noteq> Finite (of_nat i)"
  shows "element_at rt xs (Num n) = Inr Undefined"
proof (cases n)
  case (Finite q)
  have "\<not> (0 \<le> q \<and> of_int \<lfloor>q\<rfloor> = q \<and> nat \<lfloor>q\<rfloor> < length xs)"
  proof
    assume a: "0 \<le> q \<and> of_int \<lfloor>q\<rfloor> = q \<and> nat \<lfloor>q\<rfloor> < length xs"
    then have nonneg: "0 \<le> q" and whole: "of_int \<lfloor>q\<rfloor> = q"
      and below: "nat \<lfloor>q\<rfloor> < length xs"
      by blast+
    have "q = of_int \<lfloor>q\<rfloor>" using whole by (rule sym)
    also have "\<dots> = of_nat (nat \<lfloor>q\<rfloor>)" using nonneg by simp
    finally have "q = of_nat (nat \<lfloor>q\<rfloor>)" .
    with below assms Finite show False by blast
  qed
  with Finite show ?thesis by (auto simp: element_at_def)
qed (simp_all add: element_at_def)

text \<open>
  Claim C3. Let the credentials check pass and the news client return a non-empty list.
  When the requested article index is a number that is no position of that list (too
  large, negative, fractional or infinite), \<^verbatim>\<open>news[articleIndex]\<close> is undefined
  and the workflow fails with the message
  \<^verbatim>\<open>Failed to generate news meme: Selected article missing title or description\<close>,
  which contains \<^verbatim>\<open>Selected article missing title or description\<close>; the failure is
  this \<^verbatim>\<open>Error\<close> and no fault of the indexing. (NaN is left out: it is falsy, so
  \<^verbatim>\<open>args?.articleIndex || 0\<close> replaces it by 0.)
\<close>

theorem article_index_out_of_range:
  assumes "handler_guard fe rt = Inr ()"
    and "getIndianNewsByTopic rt (or_else (opt_prop args ''topic'') (Str [])) = Inr news"
    and "news \<noteq> []"
    and "opt_prop args ''articleIndex'' = Num n" and "n \<noteq> NaN"
    and "\<forall>i < length news. n \<noteq> Finite (of_nat i)"
  shows "handleGenerateNewsMeme fe rt args =
           Inl (Error ''Failed to generate news meme: Selected article missing title or description'')
         \<and> sublist ''Selected article missing title or description''
             ''Failed to generate news meme: Selected article missing title or description''"
proof -
  from assms(3,6) have "n \<noteq> Finite 0" by (cases news) auto
  with assms(4,5) have idx: "or_else (opt_prop args ''articleIndex'') (Num (Finite 0)) = Num n"
    by (simp add: or_else_def)
  from assms(6) have "element_at rt news (Num n) = Inr Undefined"
    by (rule element_at_out_of_range)
  with assms(2,3) have "handleGenerateNewsMeme_try fe rt
      (or_else (opt_prop args ''topic'') (Str [])) (Num n)
      = Inl (Error ''Selected article missing title or description'')"
    by (simp add: handleGenerateNewsMeme_try_def)
  with assms(1) idx have "handleGenerateNewsMeme fe rt args =
      Inl (Error ''Failed to generate news meme: Selected article missing title or description'')"
    by (simp add: handleGenerateNewsMeme_def message_of_def)
  moreover have "sublist ''Selected article missing title or description''
      (''Failed to generate news meme: '' @ ''Selected article missing title or description'')"
    by (rule sublist_append_leftI)
  ultimately show ?thesis by simp
qed

text \<open>Three articles; the indices 3 and -1.\<close>

theorem article_index_witness:
  "handleGenerateNewsMeme Stdio
      (example_runtime credentials (news_only three_results) no_json)
      (Obj [(''topic'', Str ''cricket''), (''articleIndex'', Num (Finite 3))])
     = Inl (Error ''Failed to generate news meme: Selected article missing title or description'')
   \<and> handleGenerateNewsMeme Http
      (example_runtime credentials (news_only three_results) no_json)
      (Obj [(''articleIndex'', Num (Finite (- 1)))])
     = Inl (Error ''Failed to generate news meme: Selected article missing title or description'')"
proof -
  let ?rt = "example_runtime credentials (news_only three_results) no_json"
  have guard: "handler_guard Stdio ?rt = Inr ()" "handler_guard Http ?rt = Inr ()"
    by (simp_all add: handler_guard_def validateEnvVars_def required_def unset_def
        example_runtime_def credentials_def)
  have news: "getIndianNewsByTopic ?rt (Str t) = Inr (replicate 3 sample_article)" for t
    by (simp add: getIndianNewsByTopic_def getIndianNewsByTopic_string_def
        getIndianNewsByTopic_try_def example_runtime_def
        news_only_def reply_200_def ok_def get_prop_def nullish_def three_results_def)
  have topic:
    "or_else (opt_prop (Obj [(''topic'', Str ''cricket''), (''articleIndex'', Num (Finite 3))])
        ''topic'') (Str []) = Str ''cricket''"
    "or_else (opt_prop (Obj [(''articleIndex'', Num (Finite (- 1)))]) ''topic'') (Str []) = Str []"
    by (simp_all add: or_else_def opt_prop_def nullish_def)
  have index:
    "opt_prop (Obj [(''topic'', Str ''cricket''), (''articleIndex'', Num (Finite 3))])
        ''articleIndex'' = Num (Finite 3)"
    "opt_prop (Obj [(''articleIndex'', Num (Finite (- 1)))]) ''articleIndex'' = Num (Finite (- 1))"
    by (simp_all add: opt_prop_def nullish_def)
  have outside: "\<forall>i < length (replicate 3 sample_article). Finite 3 \<noteq> Finite (of_nat i)"
    "\<forall>i < length (replicate 3 sample_article). Finite (- 1) \<noteq> Finite (of_nat i)"
    by auto
  have "replicate 3 sample_article \<noteq> []" "Finite 3 \<noteq> NaN" "Finite (- 1) \<noteq> NaN"
    by simp_all
  with guard news topic index outside show ?thesis
    using
      article_index_out_of_range [of Stdio ?rt
        "Obj [(''topic'', Str ''cricket''), (''articleIndex'', Num (Finite 3))]"
        "replicate 3 sample_article" "Finite 3"]
      article_index_out_of_range [of Http ?rt "Obj [(''articleIndex'', Num (Finite (- 1)))]"
        "replicate 3 sample_article" "Finite (- 1)"]
    by simp
qed

text \<open>
  What a step of the workflow throws is an \<^verbatim>\<open>Error\<close> of the program or a
  \<^verbatim>\<open>TypeError\<close> of the engine, so it has a message of its own. The credentials check
  stands before the \<^verbatim>\<open>try\<close> block: its error leaves the handler as it is.
\<close>

lemma ToString_throws_TypeError:
  "ToString rt v \<noteq> Inl NonError \<and> (\<forall>m. ToString rt v \<noteq> Inl (Error m))"
  "join_values rt sep vs \<noteq> Inl NonError \<and> (\<forall>m. join_values rt sep vs \<noteq> Inl (Error m))"
proof (induction rt v and rt sep vs rule: ToString_join_values.induct)
  case (9 rt sep x xs)
  then show ?case by (auto split: sum.splits if_splits)
qed simp_all

lemma inner_steps_throw_errors:
  "getIndianNewsByTopic rt topic \<noteq> Inl NonError"
  "element_at rt news articleIndex \<noteq> Inl NonError"
  "fetchImgflipTemplates rt \<noteq> Inl NonError"
  "generateCaption fe rt title description availableTemplates \<noteq> Inl NonError"
  "generateMeme rt templateId top_text bottom_text \<noteq> Inl NonError"
proof -
  show "getIndianNewsByTopic rt topic \<noteq> Inl NonError"
    by (auto simp: getIndianNewsByTopic_def getIndianNewsByTopic_string_def
        split: jsvalue.splits sum.splits)
  show "element_at rt news articleIndex \<noteq> Inl NonError"
  proof (cases "\<exists>n. articleIndex = Num n")
    case True
    then show ?thesis by (auto simp: element_at_def)
  next
    case False
    then have "element_at rt news articleIndex =
        (case ToString rt articleIndex of
           Inl e \<Rightarrow> Inl e
         | Inr k \<Rightarrow> Inr (own_prop (Arr news) k))"
      by (cases articleIndex) (simp_all add: element_at_def)
    then show ?thesis
      using ToString_throws_TypeError(1) [of rt articleIndex]
      by (cases "ToString rt articleIndex") auto
  qed
  show "fetchImgflipTemplates rt \<noteq> Inl NonError"
    by (auto simp: fetchImgflipTemplates_def split: sum.splits)
  have "call_join rt availableTemplates \<noteq> Inl NonError"
  proof (cases availableTemplates)
    case (Arr ids)
    then show ?thesis
      using ToString_throws_TypeError(2) [of rt "'', ''" ids] by (simp add: call_join_def)
  qed (simp_all add: call_join_def)
  then have "prompt fe rt title description availableTemplates \<noteq> Inl NonError"
    using ToString_throws_TypeError(1) [of rt title] ToString_throws_TypeError(1) [of rt description]
    by (auto simp: prompt_def split: sum.splits)
  then show "generateCaption fe rt title description availableTemplates \<noteq> Inl NonError"
    by (auto simp: generateCaption_def split: sum.splits)
  have "call_toString rt templateId \<noteq> Inl NonError"
  proof (cases "\<exists>ps. templateId = Obj ps \<or> nullish templateId")
    case True
    then show ?thesis by (auto simp: call_toString_def nullish_def split: if_splits)
  next
    case False
    then have "call_toString rt templateId = ToString rt templateId"
      by (cases templateId) (simp_all add: call_toString_def nullish_def)
    then show ?thesis using ToString_throws_TypeError(1) [of rt templateId] by simp
  qed
  then have "meme_params rt templateId top_text bottom_text \<noteq> Inl NonError"
    using ToString_throws_TypeError(1) [of rt top_text] ToString_throws_TypeError(1) [of rt bottom_text]
    by (auto simp: meme_params_def split: sum.splits)
  then show "generateMeme rt templateId top_text bottom_text \<noteq> Inl NonError"
    by (auto simp: generateMeme_def split: sum.splits)
qed

lemma credentials_error_not_wrapped:
  "handler_guard fe rt = Inl e \<Longrightarrow> handleGenerateNewsMeme fe rt args = Inl e"
  by (simp add: handleGenerateNewsMeme_def)



section \<open>Handlers: required parameters\<close>

text \<open>
  Claim C10 says that every \<^verbatim>\<open>create_meme\<close> invocation whose \<^verbatim>\<open>templateId\<close> is 0
  fails with the error \<^verbatim>\<open>Missing required parameters\<close>. Both front-ends check the
  credentials before they look at the parameters (\<^verbatim>\<open>handleCreateMeme\<close> in
  src/index.ts, \<^verbatim>\<open>handleToolRequest\<close> in src/app.ts): with a credential missing, the
  same invocation fails with the error of the credentials check instead.
\<close>

theorem falsy_parameters_without_credentials:
  "own_prop zero_template ''templateId'' = Num (Finite 0)
   \<and> handleCreateMeme Stdio (example_runtime two_missing offline no_json) zero_template
       = Inl (Error ''Missing required environment variables: GEMINI_API_KEY, IMGFLIP_PASSWORD'')
   \<and> handleCreateMeme Stdio (example_runtime two_missing offline no_json) zero_template
       \<noteq> Inl (Error ''Missing required parameters: templateId, topText, bottomText'')
   \<and> callTool (example_runtime two_missing offline no_json) ''create_meme'' zero_template
       = ErrorReply ''Error: Missing required environment variables: GEMINI_API_KEY, IMGFLIP_PASSWORD''
   \<and> handleToolRequest (example_runtime two_missing offline no_json) ''create_meme'' zero_template
       = ErrorReply ''Missing required environment variables: GEMINI_API_KEY, IMGFLIP_PASSWORD''"
proof -
  have "validateEnvVars (example_runtime two_missing offline no_json)
      = Inl (Error ''Missing required environment variables: GEMINI_API_KEY, IMGFLIP_PASSWORD'')"
    by (simp add: validateEnvVars_def required_def unset_def example_runtime_def two_missing_def)
  then show ?thesis
    by (simp add: handleCreateMeme_def handler_guard_def callTool_def call_handler_def
        handleToolRequest_def message_of_def zero_template_def)
qed

text \<open>
  Claim C10, amended. Let the credentials check pass. Then a \<^verbatim>\<open>create_meme\<close>
  invocation whose \<^verbatim>\<open>templateId\<close> is 0 or whose \<^verbatim>\<open>topText\<close> or \<^verbatim>\<open>bottomText\<close> is
  the empty string fails with
  \<^verbatim>\<open>Missing required parameters: templateId, topText, bottomText\<close>, and a
  \<^verbatim>\<open>generate_meme_caption\<close> invocation whose \<^verbatim>\<open>title\<close> or \<^verbatim>\<open>description\<close> is the
  empty string fails with
  \<^verbatim>\<open>Missing required parameters: title, description, availableTemplates\<close>, although
  the parameter is present: the check tests truthiness. This holds for the handler of
  either front-end and for the reply each front-end sends.
\<close>

theorem falsy_parameters_are_missing:
  assumes "validateEnvVars rt = Inr ()"
  shows "(own_prop args ''templateId'' = Num (Finite 0) \<or> own_prop args ''topText'' = Str []
            \<or> own_prop args ''bottomText'' = Str []
          \<longrightarrow> handleCreateMeme fe rt args
                = Inl (Error ''Missing required parameters: templateId, topText, bottomText'')
              \<and> callTool rt ''create_meme'' args
                = ErrorReply ''Error: Missing required parameters: templateId, topText, bottomText''
              \<and> handleToolRequest rt ''create_meme'' args
                = ErrorReply ''Missing required parameters: templateId, topText, bottomText'')
         \<and> (own_prop args ''title'' = Str [] \<or> own_prop args ''description'' = Str []
          \<longrightarrow> handleGenerateCaption fe rt args
                = Inl (Error ''Missing required parameters: title, description, availableTemplates'')
              \<and> callTool rt ''generate_meme_caption'' args
                = ErrorReply
                    ''Error: Missing required parameters: title, description, availableTemplates''
              \<and> handleToolRequest rt ''generate_meme_caption'' args
                = ErrorReply ''Missing required parameters: title, description, availableTemplates'')"
proof (intro conjI impI)
  have guard: "handler_guard f rt = Inr ()" for f
    using assms by (cases f) (simp_all add: handler_guard_def)
  {
    assume falsy: "own_prop args ''templateId'' = Num (Finite 0) \<or> own_prop args ''topText'' = Str []
            \<or> own_prop args ''bottomText'' = Str []"
    then have "\<not> nullish args" by (auto simp: nullish_def)
    with falsy guard have handler: "handleCreateMeme f rt args
        = Inl (Error ''Missing required parameters: templateId, topText, bottomText'')" for f
      by (auto simp: handleCreateMeme_def)
    then show "handleCreateMeme fe rt args
        = Inl (Error ''Missing required parameters: templateId, topText, bottomText'')" .
    from handler show "callTool rt ''create_meme'' args
        = ErrorReply ''Error: Missing required parameters: templateId, topText, bottomText''"
      by (simp add: callTool_def call_handler_def message_of_def)
    from handler assms show "handleToolRequest rt ''create_meme'' args
        = ErrorReply ''Missing required parameters: templateId, topText, bottomText''"
      by (simp add: handleToolRequest_def call_handler_def message_of_def)
  }
  {
    assume falsy: "own_prop args ''title'' = Str [] \<or> own_prop args ''description'' = Str []"
    then have "\<not> nullish args" by (auto simp: nullish_def)
    with falsy guard have handler: "handleGenerateCaption f rt args
        = Inl (Error ''Missing required parameters: title, description, availableTemplates'')" for f
      by (auto simp: handleGenerateCaption_def)
    then show "handleGenerateCaption fe rt args
        = Inl (Error ''Missing required parameters: title, description, availableTemplates'')" .
    from handler show "callTool rt ''generate_meme_caption'' args
        = ErrorReply ''Error: Missing required parameters: title, description, availableTemplates''"
      by (simp add: callTool_def call_handler_def message_of_def)
    from handler assms show "handleToolRequest rt ''generate_meme_caption'' args
        = ErrorReply ''Missing required parameters: title, description, availableTemplates''"
      by (simp add: handleToolRequest_def call_handler_def message_of_def)
  }
qed

text \<open>
  With the credentials set: \<^verbatim>\<open>templateId\<close> 0 with both texts given, and an empty
  \<^verbatim>\<open>title\<close> with the other two parameters given.
\<close>

theorem falsy_parameters_witness:
  "handleCreateMeme Stdio (example_runtime credentials offline no_json) zero_template
     = Inl (Error ''Missing required parameters: templateId, topText, bottomText'')
   \<and> handleToolRequest (example_runtime credentials offline no_json) ''create_meme'' zero_template
     = ErrorReply ''Missing required parameters: templateId, topText, bottomText''
   \<and> handleGenerateCaption Stdio (example_runtime credentials offline no_json) empty_title
     = Inl (Error ''Missing required parameters: title, description, availableTemplates'')
   \<and> callTool (example_runtime credentials offline no_json) ''generate_meme_caption'' empty_title
     = ErrorReply ''Error: Missing required parameters: title, description, availableTemplates''"
proof -
  let ?rt = "example_runtime credentials offline no_json"
  have env: "validateEnvVars ?rt = Inr ()"
    by (simp add: validateEnvVars_def required_def unset_def example_runtime_def credentials_def)
  have "own_prop zero_template ''templateId'' = Num (Finite 0)"
    "own_prop empty_title ''title'' = Str []"
    by (simp_all add: zero_template_def empty_title_def)
  then show ?thesis
    using falsy_parameters_are_missing [OF env, of zero_template Stdio]
      falsy_parameters_are_missing [OF env, of empty_title Stdio]
    by simp
qed

end
